theory Spec2Isabelle
  imports Complex_Main
begin

section \<open>Values shared by the three jobs\<close>

text \<open>
  The three Lambda functions (Ingest, Transform, Analysis) are Python. Their exceptions
  are values of \<open>exn\<close>; a function that may raise returns \<open>exn + 'a\<close>, with
  \<open>Inl\<close> for the exception. Python integers are \<open>int\<close>. Rates are Python floats;
  they are modelled as \<open>real\<close>, so rounding is not part of the model.
\<close>

datatype exn =
    KeyError string
  | ValueError string
  | TypeError
  | AttributeError
  | OverflowError
  | IndexError
  | ZeroDivisionError
  | RuntimeError string
  | Exception string
  | ClientError string

text \<open>
  A parsed JSON document, as \<open>json.loads\<close> returns it. An object is the list of its
  entries in insertion order (a Python dict keeps that order; its keys are distinct).
\<close>

datatype json =
    JNull
  | JBool bool
  | JNum real
  | JStr string
  | JArr "json list"
  | JObj "(string \<times> json) list"

definition bind_exn :: "exn + 'a \<Rightarrow> ('a \<Rightarrow> exn + 'b) \<Rightarrow> exn + 'b" where
  "bind_exn r f = (case r of Inl e \<Rightarrow> Inl e | Inr x \<Rightarrow> f x)"

text \<open>\<open>is_infix p s\<close>: the string \<open>p\<close> occurs in \<open>s\<close> (Python's \<open>p in s\<close> on strings).\<close>

fun is_prefix :: "string \<Rightarrow> string \<Rightarrow> bool" where
  "is_prefix [] s = True"
| "is_prefix (c # p) [] = False"
| "is_prefix (c # p) (x # s) = (c = x \<and> is_prefix p s)"

fun is_infix :: "string \<Rightarrow> string \<Rightarrow> bool" where
  "is_infix p [] = (p = [])"
| "is_infix p (x # s) = (is_prefix p (x # s) \<or> is_infix p s)"

text \<open>
  \<open>field in data\<close> with a string on the left: key membership on a dict, element
  membership on a list, substring on a string, and a TypeError on the values that are
  not containers.
\<close>

fun py_in :: "string \<Rightarrow> json \<Rightarrow> exn + bool" where
  "py_in k (JObj kvs) = Inr (k \<in> set (map fst kvs))"
| "py_in k (JArr xs) = Inr (JStr k \<in> set xs)"
| "py_in k (JStr s) = Inr (is_infix k s)"
| "py_in k JNull = Inl TypeError"
| "py_in k (JBool b) = Inl TypeError"
| "py_in k (JNum x) = Inl TypeError"

text \<open>\<open>data[key]\<close> with a string key: defined on a dict only.\<close>

fun py_getitem :: "json \<Rightarrow> string \<Rightarrow> exn + json" where
  "py_getitem (JObj kvs) k = (case map_of kvs k of None \<Rightarrow> Inl (KeyError k) | Some v \<Rightarrow> Inr v)"
| "py_getitem j k = Inl TypeError"

text \<open>\<open>data.get(key)\<close> on a dict: \<open>None\<close> for a missing key.\<close>

fun py_get :: "json \<Rightarrow> string \<Rightarrow> exn + json" where
  "py_get (JObj kvs) k = (case map_of kvs k of None \<Rightarrow> Inr JNull | Some v \<Rightarrow> Inr v)"
| "py_get j k = Inl AttributeError"

section \<open>Dates: the standard library's datetime\<close>

text \<open>
  A \<open>datetime\<close> holds its own fields; \<open>tzoffset\<close> is the UTC offset in microseconds
  of an aware value and \<open>None\<close> for a naive one. Day arithmetic goes through the
  proleptic Gregorian ordinal (day 1 is 0001-01-01), with the library's own conversion
  functions \<open>ymd2ord\<close> and \<open>ord2ymd\<close>.
\<close>

record datetime =
  year :: int
  month :: int
  day :: int
  hour :: int
  minute :: int
  second :: int
  microsecond :: int
  tzoffset :: "int option"

definition MINYEAR :: int where "MINYEAR = 1"
definition MAXYEAR :: int where "MAXYEAR = 9999"
definition MAXORDINAL :: int where "MAXORDINAL = 3652059"

definition DAYS_IN_MONTH :: "int list" where
  "DAYS_IN_MONTH = [-1, 31, 28, 31, 30, 31, 30, 31, 31, 30, 31, 30, 31]"

definition DAYS_BEFORE_MONTH :: "int list" where
  "DAYS_BEFORE_MONTH = [-1, 0, 31, 59, 90, 120, 151, 181, 212, 243, 273, 304, 334]"

definition is_leap :: "int \<Rightarrow> bool" where
  "is_leap y = (y mod 4 = 0 \<and> (y mod 100 \<noteq> 0 \<or> y mod 400 = 0))"

definition days_before_year :: "int \<Rightarrow> int" where
  "days_before_year y = (let y1 = y - 1 in y1 * 365 + y1 div 4 - y1 div 100 + y1 div 400)"

definition days_in_month :: "int \<Rightarrow> int \<Rightarrow> int" where
  "days_in_month y m = (if m = 2 \<and> is_leap y then 29 else DAYS_IN_MONTH ! nat m)"

definition days_before_month :: "int \<Rightarrow> int \<Rightarrow> int" where
  "days_before_month y m = DAYS_BEFORE_MONTH ! nat m + (if m > 2 \<and> is_leap y then 1 else 0)"

definition ymd2ord :: "int \<Rightarrow> int \<Rightarrow> int \<Rightarrow> int" where
  "ymd2ord y m d = days_before_year y + days_before_month y m + d"

definition DI400Y :: int where "DI400Y = days_before_year 401"
definition DI100Y :: int where "DI100Y = days_before_year 101"
definition DI4Y :: int where "DI4Y = days_before_year 5"

definition ord2ymd :: "int \<Rightarrow> int \<times> int \<times> int" where
  "ord2ymd n0 =
     (let n = n0 - 1;
          n400 = n div DI400Y; n = n mod DI400Y;
          y = n400 * 400 + 1;
          n100 = n div DI100Y; n = n mod DI100Y;
          n4 = n div DI4Y; n = n mod DI4Y;
          n1 = n div 365; n = n mod 365;
          y = y + n100 * 100 + n4 * 4 + n1
      in if n1 = 4 \<or> n100 = 4 then (y - 1, 12, 31)
         else
           let leapyear = (n1 = 3 \<and> (n4 \<noteq> 24 \<or> n100 = 3));
               m = (n + 50) div 32;
               preceding = DAYS_BEFORE_MONTH ! nat m + (if m > 2 \<and> leapyear then 1 else 0)
           in if preceding > n
              then let m = m - 1;
                       preceding = preceding
                         - (DAYS_IN_MONTH ! nat m + (if m = 2 \<and> leapyear then 1 else 0))
                   in (y, m, n - preceding + 1)
              else (y, m, n - preceding + 1))"

definition toordinal :: "datetime \<Rightarrow> int" where
  "toordinal dt = ymd2ord (year dt) (month dt) (day dt)"

definition weekday :: "datetime \<Rightarrow> int" where
  "weekday dt = (toordinal dt + 6) mod 7"

text \<open>
  \<open>dt - timedelta(days=k)\<close>: the ordinal moves by \<open>k\<close> days, the time of day and the
  offset stay, and a result outside 0001-01-01 .. 9999-12-31 raises OverflowError.
\<close>

definition sub_days :: "datetime \<Rightarrow> int \<Rightarrow> exn + datetime" where
  "sub_days dt k =
     (let n = toordinal dt - k
      in if 0 < n \<and> n \<le> MAXORDINAL
         then (case ord2ymd n of (y, m, d) \<Rightarrow> Inr (dt\<lparr>year := y, month := m, day := d\<rparr>))
         else Inl OverflowError)"


definition check_date_fields :: "int \<Rightarrow> int \<Rightarrow> int \<Rightarrow> bool" where
  "check_date_fields y m d =
     (MINYEAR \<le> y \<and> y \<le> MAXYEAR \<and> 1 \<le> m \<and> m \<le> 12 \<and> 1 \<le> d \<and> d \<le> days_in_month y m)"

definition check_time_fields :: "int \<Rightarrow> int \<Rightarrow> int \<Rightarrow> int \<Rightarrow> bool" where
  "check_time_fields h mi s us =
     (0 \<le> h \<and> h \<le> 23 \<and> 0 \<le> mi \<and> mi \<le> 59 \<and> 0 \<le> s \<and> s \<le> 59 \<and> 0 \<le> us \<and> us \<le> 999999)"

text \<open>A fixed UTC offset lies strictly between -24 and +24 hours.\<close>

definition check_tzinfo :: "int option \<Rightarrow> bool" where
  "check_tzinfo tz =
     (case tz of None \<Rightarrow> True | Some off \<Rightarrow> - 86400000000 < off \<and> off < 86400000000)"

subsection \<open>Parsing: \<open>datetime.fromisoformat\<close>\<close>

text \<open>
  The grammar is the one the library documents for \<open>fromisoformat\<close>:
  \<open>YYYY-MM-DD[*HH[:MM[:SS[.fff[fff]]]][+HH:MM[:SS[.ffffff]]]]\<close>, where \<open>*\<close> is any
  single character. Every number is a run of decimal digits.
\<close>

definition is_digit :: "char \<Rightarrow> bool" where
  "is_digit c = (48 \<le> (of_char c :: nat) \<and> (of_char c :: nat) \<le> 57)"

definition digit_val :: "char \<Rightarrow> int" where
  "digit_val c = int (of_char c) - 48"

definition parse_digits :: "string \<Rightarrow> int option" where
  "parse_digits s =
     (if s \<noteq> [] \<and> list_all is_digit s
      then Some (foldl (\<lambda>a c. 10 * a + digit_val c) 0 s) else None)"

definition parse_isoformat_date :: "string \<Rightarrow> (int \<times> int \<times> int) option" where
  "parse_isoformat_date dstr =
     (if length dstr = 10 \<and> dstr ! 4 = CHR ''-'' \<and> dstr ! 7 = CHR ''-''
      then (case (parse_digits (take 4 dstr), parse_digits (take 2 (drop 5 dstr)),
                  parse_digits (drop 8 dstr)) of
              (Some y, Some m, Some d) \<Rightarrow> Some (y, m, d)
            | _ \<Rightarrow> None)
      else None)"

text \<open>\<open>HH[:MM[:SS[.fff[fff]]]]\<close>; three fraction digits are milliseconds.\<close>

definition parse_hh_mm_ss_ff :: "string \<Rightarrow> (int \<times> int \<times> int \<times> int) option" where
  "parse_hh_mm_ss_ff t =
     (let n = length t;
          hh = parse_digits (take 2 t);
          mm = parse_digits (take 2 (drop 3 t));
          ss = parse_digits (take 2 (drop 6 t));
          ff = parse_digits (drop 9 t)
      in if n = 2 then (case hh of Some h \<Rightarrow> Some (h, 0, 0, 0) | None \<Rightarrow> None)
         else if n = 5 \<and> t ! 2 = CHR '':'' then
           (case (hh, mm) of (Some h, Some mi) \<Rightarrow> Some (h, mi, 0, 0) | _ \<Rightarrow> None)
         else if n = 8 \<and> t ! 2 = CHR '':'' \<and> t ! 5 = CHR '':'' then
           (case (hh, mm, ss) of (Some h, Some mi, Some s) \<Rightarrow> Some (h, mi, s, 0) | _ \<Rightarrow> None)
         else if (n = 12 \<or> n = 15) \<and> t ! 2 = CHR '':'' \<and> t ! 5 = CHR '':'' \<and> t ! 8 = CHR ''.'' then
           (case (hh, mm, ss, ff) of
              (Some h, Some mi, Some s, Some f) \<Rightarrow> Some (h, mi, s, if n = 12 then f * 1000 else f)
            | _ \<Rightarrow> None)
         else None)"

text \<open>\<open>s.find(c)\<close>: the index of the first occurrence.\<close>

fun find_char :: "char \<Rightarrow> string \<Rightarrow> nat option" where
  "find_char c [] = None"
| "find_char c (x # s) = (if x = c then Some 0 else map_option Suc (find_char c s))"

text \<open>
  The time string is split at its first \<open>-\<close>, or else at its first \<open>+\<close>; what
  follows is the offset, of length 5, 8 or 15.
\<close>

definition parse_isoformat_time ::
  "string \<Rightarrow> (int \<times> int \<times> int \<times> int \<times> int option) option" where
  "parse_isoformat_time tstr =
     (if length tstr < 2 then None
      else case (case find_char CHR ''-'' tstr of Some i \<Rightarrow> Some i
                 | None \<Rightarrow> find_char CHR ''+'' tstr) of
        None \<Rightarrow>
          (case parse_hh_mm_ss_ff tstr of
             Some (h, mi, s, us) \<Rightarrow> Some (h, mi, s, us, None)
           | None \<Rightarrow> None)
      | Some i \<Rightarrow>
          (let tzstr = drop (Suc i) tstr
           in if length tzstr \<noteq> 5 \<and> length tzstr \<noteq> 8 \<and> length tzstr \<noteq> 15 then None
              else
               (case (parse_hh_mm_ss_ff (take i tstr), parse_hh_mm_ss_ff tzstr) of
                  (Some (h, mi, s, us), Some (th, tm, ts, tus)) \<Rightarrow>
                    (let off = ((th * 60 + tm) * 60 + ts) * 1000000 + tus;
                         tzsign = (if tstr ! i = CHR ''-'' then - 1 else 1)
                     in Some (h, mi, s, us, Some (tzsign * off)))
                | _ \<Rightarrow> None)))"

definition fromisoformat :: "string \<Rightarrow> exn + datetime" where
  "fromisoformat date_string =
     (let dstr = take 10 date_string; tstr = drop 11 date_string
      in case parse_isoformat_date dstr of
           None \<Rightarrow> Inl (ValueError ''Invalid isoformat string'')
         | Some (y, m, d) \<Rightarrow>
             (case (if tstr \<noteq> [] then parse_isoformat_time tstr else Some (0, 0, 0, 0, None)) of
                None \<Rightarrow> Inl (ValueError ''Invalid isoformat string'')
              | Some (h, mi, s, us, tz) \<Rightarrow>
                  if check_date_fields y m d \<and> check_time_fields h mi s us \<and> check_tzinfo tz
                  then Inr \<lparr>year = y, month = m, day = d, hour = h, minute = mi, second = s,
                            microsecond = us, tzoffset = tz\<rparr>
                  else Inl (ValueError ''Invalid isoformat string'')))"

subsection \<open>Formatting: \<open>f"{x:04d}"\<close>\<close>

fun digits_of :: "nat \<Rightarrow> string" where
  "digits_of n =
     (if n < 10 then [''0123456789'' ! n]
      else digits_of (n div 10) @ [''0123456789'' ! (n mod 10)])"

text \<open>\<open>format_d w x\<close> is \<open>f"{x:0wd}"\<close>: the sign first, then zeros up to the width.\<close>

definition format_d :: "nat \<Rightarrow> int \<Rightarrow> string" where
  "format_d w x =
     (if x < 0
      then CHR ''-'' # replicate (w - 1 - length (digits_of (nat (- x)))) CHR ''0''
             @ digits_of (nat (- x))
      else replicate (w - length (digits_of (nat x))) CHR ''0'' @ digits_of (nat x))"

subsection \<open>The run date of an event\<close>

text \<open>\<open>raw_run_date.replace("Z", "+00:00")\<close>: every \<open>Z\<close> is replaced.\<close>

fun replace_Z :: "string \<Rightarrow> string" where
  "replace_Z [] = []"
| "replace_Z (c # s) = (if c = CHR ''Z'' then ''+00:00'' @ replace_Z s else c # replace_Z s)"

fun py_replace_Z :: "json \<Rightarrow> exn + string" where
  "py_replace_Z (JStr s) = Inr (replace_Z s)"
| "py_replace_Z j = Inl AttributeError"

text \<open>The first steps of each job's \<open>get_run_date\<close>: the event's run date, parsed.\<close>

definition parse_run_date :: "json \<Rightarrow> exn + datetime" where
  "parse_run_date event =
     bind_exn (py_getitem event ''run_date'') (\<lambda>raw_run_date.
     bind_exn (py_replace_Z raw_run_date) fromisoformat)"


section \<open>External services\<close>

text \<open>
  Every call to an external service is recorded, in order, in a list of effects. The
  responses are given by an environment. Informational logging is not part of the
  model; the error log of the query wait is.
\<close>

datatype effect =
    SsmGetParameter string
  | HttpGet string "(string \<times> string) list"
  | S3GetObject string string
  | S3PutObject string string json
  | AthenaStartQuery string
  | AthenaGetQueryExecution string
  | AthenaGetQueryResults string
  | Sleep nat
  | LogError string
  | PutMetricData string string real string

fun is_put_object :: "effect \<Rightarrow> bool" where
  "is_put_object (S3PutObject b k v) = True"
| "is_put_object e = False"

fun is_put_metric :: "effect \<Rightarrow> bool" where
  "is_put_metric (PutMetricData ns n v u) = True"
| "is_put_metric e = False"

fun is_athena_call :: "effect \<Rightarrow> bool" where
  "is_athena_call (AthenaStartQuery q) = True"
| "is_athena_call (AthenaGetQueryExecution i) = True"
| "is_athena_call (AthenaGetQueryResults i) = True"
| "is_athena_call e = False"

section \<open>Ingest\<close>

record ingest_config =
  BUCKET_NAME :: string
  BASE_CURRENCY :: string
  TARGET_CURRENCIES :: "string list"
  FX_API_URL :: string

definition TARGET_CURRENCY_CODES :: "ingest_config \<Rightarrow> string list" where
  "TARGET_CURRENCY_CODES cfg = map (\<lambda>c. BASE_CURRENCY cfg @ c) (TARGET_CURRENCIES cfg)"

text \<open>
  The parameter store answers with the secret or an error; the rate provider answers
  with a status and, read on status 200 only, the body as \<open>json.loads\<close> parses it.
\<close>

record ingest_env =
  ssm_parameter :: "exn + string"
  http_response :: "exn + (int \<times> (exn + json))"

definition ingest_get_run_date :: "json \<Rightarrow> exn + (string \<times> string \<times> string)" where
  "ingest_get_run_date event =
     bind_exn (parse_run_date event) (\<lambda>dt.
     bind_exn (sub_days dt 1) (\<lambda>fx_dt.
       Inr (format_d 4 (year fx_dt), format_d 2 (month fx_dt), format_d 2 (day fx_dt))))"

text \<open>\<open>", ".join(xs)\<close> with the separator \<open>sep\<close>.\<close>

fun join :: "string \<Rightarrow> string list \<Rightarrow> string" where
  "join sep [] = []"
| "join sep [x] = x"
| "join sep (x # y # xs) = x @ sep @ join sep (y # xs)"

text \<open>
  The two loops of \<open>validate_fx_data\<close>. Each raises at the first element that fails
  its test.
\<close>

fun check_required_fields :: "string list \<Rightarrow> json \<Rightarrow> exn + unit" where
  "check_required_fields [] data = Inr ()"
| "check_required_fields (field # rest) data =
     bind_exn (py_in field data) (\<lambda>present.
       if \<not> present then Inl (ValueError (''Missing required field: '' @ field))
       else check_required_fields rest data)"

fun check_target_quotes :: "string list \<Rightarrow> json \<Rightarrow> exn + unit" where
  "check_target_quotes [] data = Inr ()"
| "check_target_quotes (currency # rest) data =
     bind_exn (py_getitem data ''quotes'') (\<lambda>quotes.
     bind_exn (py_in currency quotes) (\<lambda>present.
       if \<not> present then Inl (ValueError (''Missing FX quote for: '' @ currency))
       else check_target_quotes rest data))"

definition required_fields :: "string list" where
  "required_fields = [''timestamp'', ''source'', ''quotes'']"

definition ingest_validate_fx_data :: "ingest_config \<Rightarrow> json \<Rightarrow> exn + unit" where
  "ingest_validate_fx_data cfg data =
     bind_exn (check_required_fields required_fields data) (\<lambda>_.
       check_target_quotes (TARGET_CURRENCY_CODES cfg) data)"

definition filter_fx_data :: "json \<Rightarrow> exn + json" where
  "filter_fx_data data =
     bind_exn (py_get data ''timestamp'') (\<lambda>t.
     bind_exn (py_get data ''source'') (\<lambda>s.
     bind_exn (py_get data ''quotes'') (\<lambda>q.
       Inr (JObj [(''timestamp'', t), (''source'', s), (''quotes'', q)]))))"

definition ingest_build_s3_key :: "string \<Rightarrow> string \<Rightarrow> string \<Rightarrow> string" where
  "ingest_build_s3_key y m d =
     ''raw/year='' @ y @ ''/month='' @ m @ ''/day='' @ d @ ''/rates.json''"

datatype ingest_result = IngestOk int string string

text \<open>
  The handler. Its \<open>try\<close> block re-raises what it catches, so an exception of a step
  is the exception of the handler. The request is recorded with its parameters before
  URL encoding. The effects are those made up to the return or the raise.
\<close>

definition ingest_lambda_handler ::
  "ingest_config \<Rightarrow> ingest_env \<Rightarrow> json \<Rightarrow> (exn + ingest_result) \<times> effect list" where
  "ingest_lambda_handler cfg env event =
     (let tr1 = [SsmGetParameter ''/fx/api/access_key'']
      in case ssm_parameter env of
        Inl e \<Rightarrow> (Inl e, tr1)
      | Inr api_key \<Rightarrow>
         (let params = [(''access_key'', api_key), (''source'', BASE_CURRENCY cfg),
                        (''currencies'', join '','' (TARGET_CURRENCIES cfg))];
              tr2 = tr1 @ [HttpGet (FX_API_URL cfg) params]
          in case http_response env of
            Inl e \<Rightarrow> (Inl e, tr2)
          | Inr (status, body) \<Rightarrow>
             if status \<noteq> 200 then (Inl (RuntimeError ''FX API returned status''), tr2)
             else
              (case body of
                 Inl e \<Rightarrow> (Inl e, tr2)
               | Inr fx_data \<Rightarrow>
                  (case ingest_validate_fx_data cfg fx_data of
                     Inl e \<Rightarrow> (Inl e, tr2)
                   | Inr _ \<Rightarrow>
                      (case filter_fx_data fx_data of
                         Inl e \<Rightarrow> (Inl e, tr2)
                       | Inr filtered_data \<Rightarrow>
                          (case ingest_get_run_date event of
                             Inl e \<Rightarrow> (Inl e, tr2)
                           | Inr (y, m, d) \<Rightarrow>
                              (let s3_key = ingest_build_s3_key y m d
                               in (Inr (IngestOk 200 ''FX data ingested successfully'' s3_key),
                                   tr2 @ [S3PutObject (BUCKET_NAME cfg) s3_key filtered_data]))))))))"

section \<open>Transform\<close>

text \<open>
  The object store answers a read with the stored document as \<open>json.loads\<close> parses
  it, or with an error (a missing key among them). Writes are recorded and succeed.
\<close>

record transform_env =
  s3_get_object :: "string \<Rightarrow> string \<Rightarrow> exn + json"

definition transform_get_run_date ::
  "json \<Rightarrow> exn + (string \<times> string \<times> string \<times> datetime)" where
  "transform_get_run_date event =
     bind_exn (parse_run_date event) (\<lambda>dt.
     bind_exn (sub_days dt 1) (\<lambda>fx_dt.
       Inr (format_d 4 (year fx_dt), format_d 2 (month fx_dt), format_d 2 (day fx_dt), fx_dt)))"

definition transform_build_s3_key :: "string \<Rightarrow> string \<Rightarrow> string \<Rightarrow> string" where
  "transform_build_s3_key y m d =
     ''raw/year='' @ y @ ''/month='' @ m @ ''/day='' @ d @ ''/rates.json''"

definition transform_validate_fx_data :: "json \<Rightarrow> exn + unit" where
  "transform_validate_fx_data data = check_required_fields required_fields data"

definition is_weekday :: "datetime \<Rightarrow> bool" where
  "is_weekday fx_dt = (weekday fx_dt < 5)"

definition py_items :: "json \<Rightarrow> exn + (string \<times> json) list" where
  "py_items j = (case j of JObj kvs \<Rightarrow> Inr kvs | _ \<Rightarrow> Inl AttributeError)"

definition normalized_record :: "string \<Rightarrow> json \<Rightarrow> string \<Rightarrow> string \<Rightarrow> string \<Rightarrow> datetime \<Rightarrow> json" where
  "normalized_record pair rate y m d fx_dt =
     JObj [(''pair'', JStr pair), (''rate'', rate), (''date'', JStr (y @ ''-'' @ m @ ''-'' @ d)),
           (''market_open'', JBool (is_weekday fx_dt))]"

definition write_key :: "string \<Rightarrow> string \<Rightarrow> string \<Rightarrow> string \<Rightarrow> string" where
  "write_key pair y m d =
     ''processed/pair='' @ pair @ ''/year='' @ y @ ''/month='' @ m @ ''/day='' @ d @ ''/data.json''"

text \<open>
  The loop of \<open>normalize_and_write\<close> over \<open>quotes.items()\<close>: the keys written so far
  and the effects so far are carried along.
\<close>

fun write_loop ::
  "string \<Rightarrow> (string \<times> json) list \<Rightarrow> string \<Rightarrow> string \<Rightarrow> string \<Rightarrow> datetime \<Rightarrow>
   string list \<Rightarrow> effect list \<Rightarrow> string list \<times> effect list" where
  "write_loop bucket [] y m d fx_dt written_files tr = (written_files, tr)"
| "write_loop bucket ((pair, rate) # items) y m d fx_dt written_files tr =
     write_loop bucket items y m d fx_dt
       (written_files @ [write_key pair y m d])
       (tr @ [S3PutObject bucket (write_key pair y m d) (normalized_record pair rate y m d fx_dt)])"

definition normalize_and_write ::
  "string \<Rightarrow> json \<Rightarrow> string \<Rightarrow> string \<Rightarrow> string \<Rightarrow> datetime \<Rightarrow> effect list \<Rightarrow>
   (exn + string list) \<times> effect list" where
  "normalize_and_write bucket data y m d fx_dt tr =
     (case bind_exn (py_getitem data ''quotes'') py_items of
        Inl e \<Rightarrow> (Inl e, tr)
      | Inr items \<Rightarrow>
         (case write_loop bucket items y m d fx_dt [] tr of
            (written_files, tr') \<Rightarrow> (Inr written_files, tr')))"

datatype transform_result = TransformSkipped | TransformOk int "string list"

definition transform_lambda_handler ::
  "string \<Rightarrow> transform_env \<Rightarrow> json \<Rightarrow> (exn + transform_result) \<times> effect list" where
  "transform_lambda_handler bucket env event =
     (case transform_get_run_date event of
        Inl e \<Rightarrow> (Inl e, [])
      | Inr (y, m, d, fx_dt) \<Rightarrow>
         (let read_key = transform_build_s3_key y m d
          in if \<not> is_prefix ''raw/'' read_key then (Inr TransformSkipped, [])
             else
               (let tr1 = [S3GetObject bucket read_key]
                in case s3_get_object env bucket read_key of
                  Inl e \<Rightarrow> (Inl e, tr1)
                | Inr data \<Rightarrow>
                   (case transform_validate_fx_data data of
                      Inl e \<Rightarrow> (Inl e, tr1)
                    | Inr _ \<Rightarrow>
                       (case normalize_and_write bucket data y m d fx_dt tr1 of
                          (Inl e, tr2) \<Rightarrow> (Inl e, tr2)
                        | (Inr output_keys, tr2) \<Rightarrow> (Inr (TransformOk 200 output_keys), tr2))))))"


section \<open>Analysis\<close>

record analysis_config =
  ATHENA_DATABASE :: string
  ATHENA_OUTPUT :: string
  ATHENA_TABLE :: string
  ATHENA_WORKGROUP :: string
  PAIR :: string

definition DEVIATION_METRIC :: "analysis_config \<Rightarrow> string" where
  "DEVIATION_METRIC cfg = PAIR cfg @ ''Deviation''"

definition METRIC_NAMESPACE :: string where
  "METRIC_NAMESPACE = ''FX/Analysis''"

text \<open>
  The query engine, as the job sees it: the execution id returned by the k-th
  submission, the answer to the k-th status request (counted over the whole run), and
  the result rows of an execution. A cell is its \<open>VarCharValue\<close>, absent for a null.
  \<open>to_float\<close> is Python's \<open>float\<close> on a string: \<open>None\<close> where it raises ValueError.
\<close>

record query_status =
  State :: string
  StateChangeReason :: "string option"

record athena_env =
  execution_id :: "nat \<Rightarrow> string"
  query_execution :: "nat \<Rightarrow> query_status"
  query_results :: "string \<Rightarrow> string option list list"
  to_float :: "string \<Rightarrow> real option"

record run_state =
  started :: nat
  polled :: nat
  effects :: "effect list"

definition initial_state :: run_state where
  "initial_state = \<lparr>started = 0, polled = 0, effects = []\<rparr>"

definition emit :: "effect \<Rightarrow> run_state \<Rightarrow> run_state" where
  "emit e st = st\<lparr>effects := effects st @ [e]\<rparr>"

definition analysis_get_run_date ::
  "json \<Rightarrow> exn + (string \<times> string \<times> string \<times> datetime)" where
  "analysis_get_run_date event =
     bind_exn (parse_run_date event) (\<lambda>dt.
     bind_exn (sub_days dt 1) (\<lambda>fx_dt.
       Inr (format_d 4 (year fx_dt), format_d 2 (month fx_dt), format_d 2 (day fx_dt), fx_dt)))"

definition get_yesterdays_date :: "datetime \<Rightarrow> exn + (string \<times> string \<times> string)" where
  "get_yesterdays_date fx_dt =
     bind_exn (sub_days fx_dt 1) (\<lambda>dt_pd.
       Inr (format_d 4 (year dt_pd), format_d 2 (month dt_pd), format_d 2 (day dt_pd)))"

definition is_weekend :: "datetime \<Rightarrow> bool" where
  "is_weekend fx_dt = (weekday fx_dt \<ge> 5)"

definition start_query :: "athena_env \<Rightarrow> string \<Rightarrow> run_state \<Rightarrow> string \<times> run_state" where
  "start_query env query st =
     (execution_id env (started st), emit (AthenaStartQuery query) (st\<lparr>started := started st + 1\<rparr>))"

text \<open>
  The polling loop has no bound of its own: where the engine never reports a terminal
  state, the wait does not return, which is the value \<open>None\<close>.
\<close>

partial_function (option) wait_for_query ::
  "athena_env \<Rightarrow> string \<Rightarrow> run_state \<Rightarrow> (string \<times> run_state) option" where
  "wait_for_query env qid st =
     (if State (query_execution env (polled st)) = ''SUCCEEDED''
       then Some (State (query_execution env (polled st)),
              emit (AthenaGetQueryExecution qid) (st\<lparr>polled := polled st + 1\<rparr>))
      else if State (query_execution env (polled st)) = ''FAILED''
            \<or> State (query_execution env (polled st)) = ''CANCELLED''
       then Some (State (query_execution env (polled st)),
              emit (LogError (''Athena query failed: '' @
                      (case StateChangeReason (query_execution env (polled st)) of
                         None \<Rightarrow> ''Unknown'' | Some reason \<Rightarrow> reason)))
                (emit (AthenaGetQueryExecution qid) (st\<lparr>polled := polled st + 1\<rparr>)))
      else wait_for_query env qid
             (emit (Sleep 2) (emit (AthenaGetQueryExecution qid) (st\<lparr>polled := polled st + 1\<rparr>))))"

text \<open>
  \<open>float(rows[1]["Data"][0]["VarCharValue"])\<close>: each index and the key lookup can
  raise, and so can the conversion.
\<close>

definition single_value :: "athena_env \<Rightarrow> string option list list \<Rightarrow> exn + real" where
  "single_value env rows =
     (if length rows < 2 then Inl IndexError
      else case rows ! 1 of
        [] \<Rightarrow> Inl IndexError
      | cell # _ \<Rightarrow>
         (case cell of
            None \<Rightarrow> Inl (KeyError ''VarCharValue'')
          | Some text \<Rightarrow>
             (case to_float env text of
                None \<Rightarrow> Inl (ValueError ''could not convert string to float'')
              | Some r \<Rightarrow> Inr r)))"

definition get_single_value ::
  "athena_env \<Rightarrow> string \<Rightarrow> run_state \<Rightarrow> (exn + real) \<times> run_state" where
  "get_single_value env qid st =
     (single_value env (query_results env qid), emit (AthenaGetQueryResults qid) st)"

definition newline :: string where
  "newline = [CHR 0x0A]"

definition rate_query :: "analysis_config \<Rightarrow> string \<Rightarrow> string \<Rightarrow> string \<Rightarrow> string" where
  "rate_query cfg y m d =
     newline @ ''    SELECT rate'' @
     newline @ ''    FROM '' @ ATHENA_TABLE cfg @
     newline @ ''    WHERE pair = '' @ [CHR 0x27] @ PAIR cfg @ [CHR 0x27] @
     newline @ ''        AND market_open = true'' @
     newline @ ''        AND year = '' @ [CHR 0x27] @ y @ [CHR 0x27] @
     newline @ ''        AND month = '' @ [CHR 0x27] @ m @ [CHR 0x27] @
     newline @ ''        AND day = '' @ [CHR 0x27] @ d @ [CHR 0x27] @
     newline @ ''    ''"

text \<open>
  \<open>get_todays_rate\<close> and \<open>get_yesterdays_rate\<close> differ in the message they raise
  with; \<open>run_rate_query\<close> is their common body.
\<close>

definition run_rate_query ::
  "analysis_config \<Rightarrow> athena_env \<Rightarrow> string \<Rightarrow> string \<Rightarrow> string \<Rightarrow> string \<Rightarrow> run_state \<Rightarrow>
   ((exn + real) \<times> run_state) option" where
  "run_rate_query cfg env failure y m d st =
     (case start_query env (rate_query cfg y m d) st of
        (qid, st1) \<Rightarrow>
          (case wait_for_query env qid st1 of
             None \<Rightarrow> None
           | Some (status, st2) \<Rightarrow>
              if status \<noteq> ''SUCCEEDED'' then Some (Inl (Exception failure), st2)
              else Some (get_single_value env qid st2)))"

definition get_todays_rate ::
  "analysis_config \<Rightarrow> athena_env \<Rightarrow> string \<Rightarrow> string \<Rightarrow> string \<Rightarrow> run_state \<Rightarrow>
   ((exn + real) \<times> run_state) option" where
  "get_todays_rate cfg env y m d st =
     run_rate_query cfg env ''Athena query for todays rate failed'' y m d st"

definition get_yesterdays_rate ::
  "analysis_config \<Rightarrow> athena_env \<Rightarrow> string \<Rightarrow> string \<Rightarrow> string \<Rightarrow> run_state \<Rightarrow>
   ((exn + real) \<times> run_state) option" where
  "get_yesterdays_rate cfg env y m d st =
     run_rate_query cfg env ''Athena query for daily average failed'' y m d st"

definition publish_metric :: "analysis_config \<Rightarrow> real \<Rightarrow> run_state \<Rightarrow> run_state" where
  "publish_metric cfg deviation st =
     emit (PutMetricData METRIC_NAMESPACE (DEVIATION_METRIC cfg) (deviation * 100) ''Percent'') st"

datatype analysis_result =
    AnalysisSkipped string string
  | AnalysisOk string real real real

text \<open>
  The handler returns \<open>None\<close> where a wait never ends, and otherwise its result or
  exception together with the effects made.
\<close>

definition analysis_lambda_handler ::
  "analysis_config \<Rightarrow> athena_env \<Rightarrow> json \<Rightarrow> ((exn + analysis_result) \<times> effect list) option" where
  "analysis_lambda_handler cfg env event =
     (case analysis_get_run_date event of
        Inl e \<Rightarrow> Some (Inl e, [])
      | Inr (y, m, d, fx_dt) \<Rightarrow>
         (case get_yesterdays_date fx_dt of
            Inl e \<Rightarrow> Some (Inl e, [])
          | Inr (y_pd, m_pd, d_pd) \<Rightarrow>
             if is_weekend fx_dt then Some (Inr (AnalysisSkipped ''skipped'' ''weekend''), [])
             else
              (case get_todays_rate cfg env y m d initial_state of
                 None \<Rightarrow> None
               | Some (Inl e, st1) \<Rightarrow> Some (Inl e, effects st1)
               | Some (Inr todays_rate, st1) \<Rightarrow>
                  (case get_yesterdays_rate cfg env y_pd m_pd d_pd st1 of
                     None \<Rightarrow> None
                   | Some (Inl e, st2) \<Rightarrow> Some (Inl e, effects st2)
                   | Some (Inr yesterdays_rate, st2) \<Rightarrow>
                      if yesterdays_rate = 0 then Some (Inl ZeroDivisionError, effects st2)
                      else
                       (let deviation = \<bar>todays_rate - yesterdays_rate\<bar> / yesterdays_rate
                        in Some (Inr (AnalysisOk (PAIR cfg) todays_rate yesterdays_rate deviation),
                                 effects (publish_metric cfg deviation st2)))))))"


section \<open>Example inputs\<close>

text \<open>
  The running example: the run date 2024-03-01T12:30:00Z. Its business date is
  2024-02-29, a Thursday, and the day before that is 2024-02-28.
\<close>

definition friday_event :: json where
  "friday_event = JObj [(''run_date'', JStr ''2024-03-01T12:30:00Z'')]"

definition thursday_dt :: datetime where
  "thursday_dt = \<lparr>year = 2024, month = 2, day = 29, hour = 12, minute = 30, second = 0,
                   microsecond = 0, tzoffset = Some 0\<rparr>"

text \<open>
  Ingest's configuration with the defaults of the source (base USD, target JPY), three
  provider payloads, and services that answer with a given document.
\<close>

definition default_config :: ingest_config where
  "default_config = \<lparr>BUCKET_NAME = ''fx-bucket'', BASE_CURRENCY = ''USD'',
     TARGET_CURRENCIES = [''JPY''], FX_API_URL = ''https://api.example/live''\<rparr>"

definition empty_quotes_payload :: json where
  "empty_quotes_payload =
     JObj [(''timestamp'', JNum 1709251200), (''source'', JStr ''USD''), (''quotes'', JObj [])]"

definition no_quotes_payload :: json where
  "no_quotes_payload = JObj [(''timestamp'', JNum 1709251200), (''source'', JStr ''USD'')]"

definition two_quotes_payload :: json where
  "two_quotes_payload =
     JObj [(''timestamp'', JNum 1709251200), (''source'', JStr ''USD''),
           (''quotes'', JObj [(''USDJPY'', JNum 150), (''USDEUR'', JNum 0.9)])]"

definition ingest_env_of :: "json \<Rightarrow> ingest_env" where
  "ingest_env_of body = \<lparr>ssm_parameter = Inr ''secret'', http_response = Inr (200, Inr body)\<rparr>"

definition transform_env_of :: "json \<Rightarrow> transform_env" where
  "transform_env_of body = \<lparr>s3_get_object = (\<lambda>b k. Inr body)\<rparr>"

text \<open>
  A query engine that holds today's rate 151.5 and yesterday's rate 150.0 and answers
  the status requests as given, with two sequences of answers.
\<close>

definition rates_env :: "(nat \<Rightarrow> query_status) \<Rightarrow> athena_env" where
  "rates_env polls =
     \<lparr>execution_id = (\<lambda>k. if k = 0 then ''q-today'' else ''q-yesterday''),
      query_execution = polls,
      query_results = (\<lambda>qid.
        if qid = ''q-today'' then [[Some ''rate''], [Some ''151.5'']]
        else if qid = ''q-yesterday'' then [[Some ''rate''], [Some ''150.0'']]
        else [[Some ''rate'']]),
      to_float = (\<lambda>s. if s = ''151.5'' then Some 151.5
                       else if s = ''150.0'' then Some 150 else None)\<rparr>"

definition all_succeeded :: "nat \<Rightarrow> query_status" where
  "all_succeeded i = \<lparr>State = ''SUCCEEDED'', StateChangeReason = None\<rparr>"

definition running_running_failed :: "nat \<Rightarrow> query_status" where
  "running_running_failed i =
     (if i < 2 then \<lparr>State = ''RUNNING'', StateChangeReason = None\<rparr>
      else \<lparr>State = ''FAILED'', StateChangeReason = Some ''Query exhausted resources''\<rparr>)"

text \<open>
  Analysis's configuration for the pair USDJPY, a query engine whose stored rate of
  yesterday is 0, and a sequence of answers where the first query succeeds at once and
  the second is cancelled without a stated reason.
\<close>

definition default_analysis_config :: analysis_config where
  "default_analysis_config =
     \<lparr>ATHENA_DATABASE = ''fx'', ATHENA_OUTPUT = ''s3://fx-athena-results/'',
      ATHENA_TABLE = ''fx_rates'', ATHENA_WORKGROUP = ''primary'', PAIR = ''USDJPY''\<rparr>"


definition succeeded_then_cancelled :: "nat \<Rightarrow> query_status" where
  "succeeded_then_cancelled i =
     (if i = 0 then \<lparr>State = ''SUCCEEDED'', StateChangeReason = None\<rparr>
      else \<lparr>State = ''CANCELLED'', StateChangeReason = None\<rparr>)"


section \<open>Evaluation on concrete inputs\<close>

lemmas parse_eval =
  parse_run_date_def bind_exn_def fromisoformat_def parse_isoformat_date_def
  parse_isoformat_time_def parse_hh_mm_ss_ff_def parse_digits_def is_digit_def digit_val_def
  check_date_fields_def check_time_fields_def check_tzinfo_def days_in_month_def
  DAYS_IN_MONTH_def is_leap_def MINYEAR_def MAXYEAR_def Let_def

lemmas ordinal_eval =
  sub_days_def toordinal_def ord2ymd_def ymd2ord_def days_before_year_def
  days_before_month_def DAYS_BEFORE_MONTH_def DAYS_IN_MONTH_def is_leap_def
  DI400Y_def DI100Y_def DI4Y_def MAXORDINAL_def Let_def

lemma replicate_small:
  "replicate 1 c = [c]" "replicate 2 c = [c, c]" "replicate 3 c = [c, c, c]"
  by (simp_all add: numeral_2_eq_2 numeral_3_eq_3)

lemmas format_eval = format_d_def replicate_small

lemma parse_friday_event:
  "parse_run_date friday_event =
     Inr \<lparr>year = 2024, month = 3, day = 1, hour = 12, minute = 30, second = 0,
          microsecond = 0, tzoffset = Some 0\<rparr>"
  by (simp add: friday_event_def parse_eval)

lemma sub_days_friday:
  "sub_days \<lparr>year = 2024, month = 3, day = 1, hour = 12, minute = 30, second = 0,
             microsecond = 0, tzoffset = Some 0\<rparr> 1 = Inr thursday_dt"
  by (simp add: thursday_dt_def ordinal_eval)

lemma format_thursday:
  "format_d 4 (year thursday_dt) = ''2024''"
  "format_d 2 (month thursday_dt) = ''02''"
  "format_d 2 (day thursday_dt) = ''29''"
  by (simp_all add: thursday_dt_def format_eval)

lemma ingest_get_run_date_friday:
  "ingest_get_run_date friday_event = Inr (''2024'', ''02'', ''29'')"
  by (simp add: ingest_get_run_date_def parse_friday_event sub_days_friday format_thursday
      bind_exn_def)

lemma transform_get_run_date_friday:
  "transform_get_run_date friday_event = Inr (''2024'', ''02'', ''29'', thursday_dt)"
  by (simp add: transform_get_run_date_def parse_friday_event sub_days_friday format_thursday
      bind_exn_def)

lemma analysis_get_run_date_friday:
  "analysis_get_run_date friday_event = Inr (''2024'', ''02'', ''29'', thursday_dt)"
  by (simp add: analysis_get_run_date_def parse_friday_event sub_days_friday format_thursday
      bind_exn_def)

section \<open>The three date resolvers and the two raw-key builders\<close>

text \<open>
  Claim C1. On every event the date resolvers of Ingest, Transform and Analysis give
  the same outcome: the same exception, or the same zero-padded (year, month, day)
  strings of the business date (Transform and Analysis return the underlying date as
  well, and agree on it). Ingest's and Transform's key builders give the same raw
  object key for every triple.
\<close>

theorem date_resolvers_agree:
  "ingest_get_run_date event
     = map_sum id (\<lambda>(y, m, d, fx_dt). (y, m, d)) (transform_get_run_date event)
   \<and> analysis_get_run_date event = transform_get_run_date event
   \<and> ingest_build_s3_key y m d = transform_build_s3_key y m d"
  by (simp add: ingest_get_run_date_def transform_get_run_date_def analysis_get_run_date_def
      ingest_build_s3_key_def transform_build_s3_key_def bind_exn_def split: sum.splits)

theorem date_resolvers_agree_witness:
  "ingest_get_run_date friday_event = Inr (''2024'', ''02'', ''29'')
   \<and> transform_get_run_date friday_event = Inr (''2024'', ''02'', ''29'', thursday_dt)
   \<and> analysis_get_run_date friday_event = transform_get_run_date friday_event
   \<and> transform_build_s3_key ''2024'' ''02'' ''29'' = ''raw/year=2024/month=02/day=29/rates.json''
   \<and> ingest_build_s3_key ''2024'' ''02'' ''29'' = transform_build_s3_key ''2024'' ''02'' ''29''"
  using date_resolvers_agree [of friday_event "''2024''" "''02''" "''29''"]
  by (simp add: transform_get_run_date_friday ingest_get_run_date_friday
      transform_build_s3_key_def)

section \<open>The two validators\<close>

text \<open>
  On a JSON object, each loop of a validator stops at the first name that is not a key,
  in the order of its list.
\<close>

lemma check_required_fields_obj:
  "check_required_fields fs (JObj kvs) =
     (case find (\<lambda>f. f \<notin> fst ` set kvs) fs of
        Some f \<Rightarrow> Inl (ValueError (''Missing required field: '' @ f))
      | None \<Rightarrow> Inr ())"
  by (induction fs) (auto simp: bind_exn_def)

lemma check_target_quotes_obj:
  "map_of kvs ''quotes'' = Some (JObj qs) \<Longrightarrow>
   check_target_quotes cs (JObj kvs) =
     (case find (\<lambda>c. c \<notin> fst ` set qs) cs of
        Some c \<Rightarrow> Inl (ValueError (''Missing FX quote for: '' @ c))
      | None \<Rightarrow> Inr ())"
  by (induction cs) (auto simp: bind_exn_def)

lemma find_None_subset: "(find (\<lambda>x. x \<notin> A) xs = None) = (set xs \<subseteq> A)"
  by (induction xs) auto

lemma transform_accepts_when_ingest_accepts:
  "ingest_validate_fx_data cfg data = Inr () \<Longrightarrow> transform_validate_fx_data data = Inr ()"
  by (auto simp: ingest_validate_fx_data_def transform_validate_fx_data_def bind_exn_def
      split: sum.splits)

lemma transform_error_is_ingest_error:
  "transform_validate_fx_data data = Inl e \<Longrightarrow> ingest_validate_fx_data cfg data = Inl e"
  by (auto simp: ingest_validate_fx_data_def transform_validate_fx_data_def bind_exn_def
      split: sum.splits)

lemma transform_validate_obj:
  "(transform_validate_fx_data (JObj kvs) = Inr ())
     = ({''timestamp'', ''source'', ''quotes''} \<subseteq> fst ` set kvs)"
  unfolding transform_validate_fx_data_def required_fields_def check_required_fields_obj
  by (simp add: find_None_subset [symmetric] split: option.splits)

lemma ingest_validate_obj:
  assumes "map_of kvs ''quotes'' = Some (JObj qs)"
  shows "(ingest_validate_fx_data cfg (JObj kvs) = Inr ())
     = (transform_validate_fx_data (JObj kvs) = Inr ()
        \<and> set (TARGET_CURRENCY_CODES cfg) \<subseteq> fst ` set qs)"
  unfolding ingest_validate_fx_data_def transform_validate_fx_data_def
    check_target_quotes_obj [OF assms] bind_exn_def
  by (simp add: find_None_subset [symmetric] split: sum.splits option.splits)

text \<open>
  Claim C2, as stated: Transform's validator fails exactly when Ingest's does. It does
  not. Transform's validator has no loop over the target pair codes, so the payload
  with the three required fields and an empty \<open>quotes\<close> mapping passes Transform's
  validator, while Ingest's validator, configured with the source's default target JPY,
  raises "Missing FX quote for: USDJPY".
\<close>

theorem transform_validator_weaker_counterexample:
  "transform_validate_fx_data empty_quotes_payload = Inr ()
   \<and> ingest_validate_fx_data default_config empty_quotes_payload
       = Inl (ValueError ''Missing FX quote for: USDJPY'')
   \<and> \<not> (\<forall>cfg data. (transform_validate_fx_data data = Inr ())
                      = (ingest_validate_fx_data cfg data = Inr ()))"
proof -
  have t: "transform_validate_fx_data empty_quotes_payload = Inr ()"
    by (simp add: transform_validate_fx_data_def empty_quotes_payload_def required_fields_def
        bind_exn_def)
  have i: "ingest_validate_fx_data default_config empty_quotes_payload
       = Inl (ValueError ''Missing FX quote for: USDJPY'')"
    by (simp add: ingest_validate_fx_data_def empty_quotes_payload_def default_config_def
        required_fields_def TARGET_CURRENCY_CODES_def bind_exn_def)
  have "\<not> (\<forall>cfg data. (transform_validate_fx_data data = Inr ())
                      = (ingest_validate_fx_data cfg data = Inr ()))"
  proof
    assume "\<forall>cfg data. (transform_validate_fx_data data = Inr ())
                      = (ingest_validate_fx_data cfg data = Inr ())"
    then have "(transform_validate_fx_data empty_quotes_payload = Inr ())
                 = (ingest_validate_fx_data default_config empty_quotes_payload = Inr ())"
      by blast
    with t i show False by simp
  qed
  with t i show ?thesis by blast
qed

text \<open>
  Claim C2, amended. Transform's validator accepts a JSON object exactly when the three
  required top-level fields timestamp, source and quotes are keys of it; it never looks
  at the target pair codes. Every payload that Ingest's validator accepts, Transform's
  accepts; every error Transform's validator raises, Ingest's raises too; and on an
  object whose \<open>quotes\<close> is a mapping, Ingest's validator accepts exactly when
  Transform's does and every configured pair code is a key of \<open>quotes\<close>.
\<close>

theorem transform_validator_checks_fields_only:
  "(transform_validate_fx_data (JObj kvs) = Inr ())
     = ({''timestamp'', ''source'', ''quotes''} \<subseteq> fst ` set kvs)
   \<and> (ingest_validate_fx_data cfg data = Inr () \<longrightarrow> transform_validate_fx_data data = Inr ())
   \<and> (transform_validate_fx_data data = Inl e \<longrightarrow> ingest_validate_fx_data cfg data = Inl e)
   \<and> (map_of kvs ''quotes'' = Some (JObj qs) \<longrightarrow>
        (ingest_validate_fx_data cfg (JObj kvs) = Inr ())
          = (transform_validate_fx_data (JObj kvs) = Inr ()
             \<and> set (TARGET_CURRENCY_CODES cfg) \<subseteq> fst ` set qs))"
  using transform_validate_obj [of kvs] transform_accepts_when_ingest_accepts [of cfg data]
    transform_error_is_ingest_error [of data e cfg] ingest_validate_obj [of kvs qs cfg]
  by blast

theorem transform_validator_checks_fields_only_witness:
  "ingest_validate_fx_data default_config two_quotes_payload = Inr ()
   \<and> transform_validate_fx_data two_quotes_payload = Inr ()
   \<and> transform_validate_fx_data no_quotes_payload
       = Inl (ValueError ''Missing required field: quotes'')
   \<and> ingest_validate_fx_data default_config no_quotes_payload
       = Inl (ValueError ''Missing required field: quotes'')"
proof -
  have h1: "ingest_validate_fx_data default_config two_quotes_payload = Inr ()"
    by (simp add: ingest_validate_fx_data_def two_quotes_payload_def default_config_def
        required_fields_def TARGET_CURRENCY_CODES_def bind_exn_def)
  have h2: "transform_validate_fx_data no_quotes_payload
       = Inl (ValueError ''Missing required field: quotes'')"
    by (simp add: transform_validate_fx_data_def no_quotes_payload_def required_fields_def
        bind_exn_def)
  from h1 have c1: "transform_validate_fx_data two_quotes_payload = Inr ()"
    using transform_validator_checks_fields_only
      [where cfg = default_config and data = two_quotes_payload]
    by blast
  from h2 have c2: "ingest_validate_fx_data default_config no_quotes_payload
       = Inl (ValueError ''Missing required field: quotes'')"
    using transform_validator_checks_fields_only
      [where cfg = default_config and data = no_quotes_payload
         and e = "ValueError ''Missing required field: quotes''"]
    by blast
  from h1 h2 c1 c2 show ?thesis by simp
qed

section \<open>Ingest: the first violation\<close>

lemma ingest_validate_obj_first:
  "ingest_validate_fx_data cfg (JObj kvs) =
     (case find (\<lambda>f. f \<notin> fst ` set kvs) [''timestamp'', ''source'', ''quotes''] of
        Some f \<Rightarrow> Inl (ValueError (''Missing required field: '' @ f))
      | None \<Rightarrow> check_target_quotes (TARGET_CURRENCY_CODES cfg) (JObj kvs))"
  unfolding ingest_validate_fx_data_def required_fields_def check_required_fields_obj
  by (simp add: bind_exn_def split: option.splits)

lemma ingest_handler_validation_failure:
  assumes "ssm_parameter env = Inr api_key" "http_response env = Inr (200, Inr data)"
    "ingest_validate_fx_data cfg data = Inl e"
  shows "ingest_lambda_handler cfg env event =
     (Inl e, [SsmGetParameter ''/fx/api/access_key'',
              HttpGet (FX_API_URL cfg)
                [(''access_key'', api_key), (''source'', BASE_CURRENCY cfg),
                 (''currencies'', join '','' (TARGET_CURRENCIES cfg))]])"
  using assms by (simp add: ingest_lambda_handler_def)

text \<open>
  Claim C8. On a payload that is a JSON object, Ingest's validator raises a ValueError
  that names the first violation only: the first of timestamp, source, quotes (in this
  order) that is not a key; and, when the three are keys and \<open>quotes\<close> is a mapping,
  the first configured pair code (in the configured order) that is not a key of
  \<open>quotes\<close>. With timestamp and source present and quotes absent the message is
  "Missing required field: quotes"; whenever quotes is absent the validator raises a
  missing-field error. When the validator raises on the fetched payload, the handler
  raises the same error and its run holds no object write.
\<close>

theorem ingest_validator_reports_first_violation:
  "(find (\<lambda>f. f \<notin> fst ` set kvs) [''timestamp'', ''source'', ''quotes''] = Some f \<longrightarrow>
      ingest_validate_fx_data cfg (JObj kvs) = Inl (ValueError (''Missing required field: '' @ f)))
   \<and> ({''timestamp'', ''source'', ''quotes''} \<subseteq> fst ` set kvs
        \<and> map_of kvs ''quotes'' = Some (JObj qs)
        \<and> find (\<lambda>c. c \<notin> fst ` set qs) (TARGET_CURRENCY_CODES cfg) = Some c \<longrightarrow>
      ingest_validate_fx_data cfg (JObj kvs) = Inl (ValueError (''Missing FX quote for: '' @ c)))
   \<and> (''timestamp'' \<in> fst ` set kvs \<and> ''source'' \<in> fst ` set kvs \<and> ''quotes'' \<notin> fst ` set kvs \<longrightarrow>
      ingest_validate_fx_data cfg (JObj kvs) = Inl (ValueError ''Missing required field: quotes''))
   \<and> (''quotes'' \<notin> fst ` set kvs \<longrightarrow>
      (\<exists>f \<in> {''timestamp'', ''source'', ''quotes''}.
         ingest_validate_fx_data cfg (JObj kvs) = Inl (ValueError (''Missing required field: '' @ f))))
   \<and> (ssm_parameter env = Inr api_key \<and> http_response env = Inr (200, Inr data)
        \<and> ingest_validate_fx_data cfg data = Inl e \<longrightarrow>
      fst (ingest_lambda_handler cfg env event) = Inl e
      \<and> filter is_put_object (snd (ingest_lambda_handler cfg env event)) = [])"
proof (intro conjI impI)
  assume "find (\<lambda>f. f \<notin> fst ` set kvs) [''timestamp'', ''source'', ''quotes''] = Some f"
  then show "ingest_validate_fx_data cfg (JObj kvs)
      = Inl (ValueError (''Missing required field: '' @ f))"
    by (simp add: ingest_validate_obj_first)
next
  assume a: "{''timestamp'', ''source'', ''quotes''} \<subseteq> fst ` set kvs
        \<and> map_of kvs ''quotes'' = Some (JObj qs)
        \<and> find (\<lambda>c. c \<notin> fst ` set qs) (TARGET_CURRENCY_CODES cfg) = Some c"
  then have "find (\<lambda>f. f \<notin> fst ` set kvs) [''timestamp'', ''source'', ''quotes''] = None"
    by (simp add: find_None_subset)
  with a show "ingest_validate_fx_data cfg (JObj kvs)
      = Inl (ValueError (''Missing FX quote for: '' @ c))"
    by (simp add: ingest_validate_obj_first check_target_quotes_obj)
next
  assume "''timestamp'' \<in> fst ` set kvs \<and> ''source'' \<in> fst ` set kvs
      \<and> ''quotes'' \<notin> fst ` set kvs"
  then show "ingest_validate_fx_data cfg (JObj kvs)
      = Inl (ValueError ''Missing required field: quotes'')"
    by (simp add: ingest_validate_obj_first)
next
  assume "''quotes'' \<notin> fst ` set kvs"
  then show "\<exists>f \<in> {''timestamp'', ''source'', ''quotes''}.
         ingest_validate_fx_data cfg (JObj kvs) = Inl (ValueError (''Missing required field: '' @ f))"
    by (simp add: ingest_validate_obj_first)
next
  assume a: "ssm_parameter env = Inr api_key \<and> http_response env = Inr (200, Inr data)
        \<and> ingest_validate_fx_data cfg data = Inl e"
  then show "fst (ingest_lambda_handler cfg env event) = Inl e"
    by (simp add: ingest_handler_validation_failure)
  from a show "filter is_put_object (snd (ingest_lambda_handler cfg env event)) = []"
    by (simp add: ingest_handler_validation_failure)
qed

theorem ingest_validator_reports_first_violation_witness:
  "''timestamp'' \<in> fst ` set [(''timestamp'', JNum 1709251200), (''source'', JStr ''USD'')]
   \<and> ''source'' \<in> fst ` set [(''timestamp'', JNum 1709251200), (''source'', JStr ''USD'')]
   \<and> ''quotes'' \<notin> fst ` set [(''timestamp'', JNum 1709251200), (''source'', JStr ''USD'')]
   \<and> ingest_validate_fx_data default_config no_quotes_payload
       = Inl (ValueError ''Missing required field: quotes'')
   \<and> is_infix ''quotes'' ''Missing required field: quotes''
   \<and> ssm_parameter (ingest_env_of no_quotes_payload) = Inr ''secret''
   \<and> http_response (ingest_env_of no_quotes_payload) = Inr (200, Inr no_quotes_payload)
   \<and> fst (ingest_lambda_handler default_config (ingest_env_of no_quotes_payload) friday_event)
       = Inl (ValueError ''Missing required field: quotes'')
   \<and> filter is_put_object
       (snd (ingest_lambda_handler default_config (ingest_env_of no_quotes_payload) friday_event))
       = []"
proof -
  let ?kvs = "[(''timestamp'', JNum 1709251200), (''source'', JStr ''USD'')]"
  have k: "''timestamp'' \<in> fst ` set ?kvs \<and> ''source'' \<in> fst ` set ?kvs
      \<and> ''quotes'' \<notin> fst ` set ?kvs"
    by simp
  have v: "ingest_validate_fx_data default_config no_quotes_payload
       = Inl (ValueError ''Missing required field: quotes'')"
    using k ingest_validator_reports_first_violation
      [where kvs = ?kvs and cfg = default_config]
    unfolding no_quotes_payload_def by blast
  have e: "ssm_parameter (ingest_env_of no_quotes_payload) = Inr ''secret''
      \<and> http_response (ingest_env_of no_quotes_payload) = Inr (200, Inr no_quotes_payload)"
    by (simp add: ingest_env_of_def)
  have h: "fst (ingest_lambda_handler default_config (ingest_env_of no_quotes_payload) friday_event)
       = Inl (ValueError ''Missing required field: quotes'')
     \<and> filter is_put_object
       (snd (ingest_lambda_handler default_config (ingest_env_of no_quotes_payload) friday_event))
       = []"
    using e v ingest_validator_reports_first_violation
      [where cfg = default_config and env = "ingest_env_of no_quotes_payload"
         and api_key = "''secret''" and data = no_quotes_payload
         and e = "ValueError ''Missing required field: quotes''" and event = friday_event]
    by blast
  have i: "is_infix ''quotes'' ''Missing required field: quotes''"
    by simp
  from k v e h i show ?thesis by blast
qed

section \<open>Transform: the guard and the fan-out\<close>

lemma write_loop_trace:
  "snd (write_loop bucket items y m d fx_dt ws tr)
     = tr @ map (\<lambda>(pair, rate). S3PutObject bucket (write_key pair y m d)
                  (normalized_record pair rate y m d fx_dt)) items"
  by (induction items arbitrary: ws tr) auto

lemma write_loop_keys:
  "fst (write_loop bucket items y m d fx_dt ws tr)
     = ws @ map (\<lambda>(pair, rate). write_key pair y m d) items"
  by (induction items arbitrary: ws tr) auto

lemma raw_key_prefix: "is_prefix ''raw/'' (transform_build_s3_key y m d)"
  by (simp add: transform_build_s3_key_def)

lemma transform_handler_not_skipped:
  "fst (transform_lambda_handler bucket env event) \<noteq> Inr TransformSkipped"
  by (simp add: transform_lambda_handler_def raw_key_prefix Let_def
      split: sum.splits prod.splits)

lemma normalize_and_write_trace:
  "\<exists>rest. snd (normalize_and_write bucket data y m d fx_dt tr) = tr @ rest"
proof (cases "bind_exn (py_getitem data ''quotes'') py_items")
  case (Inl e)
  then show ?thesis by (simp add: normalize_and_write_def)
next
  case (Inr items)
  then have "snd (normalize_and_write bucket data y m d fx_dt tr)
      = snd (write_loop bucket items y m d fx_dt [] tr)"
    by (simp add: normalize_and_write_def split: prod.splits)
  then show ?thesis by (simp add: write_loop_trace)
qed

lemma transform_handler_reads_raw:
  assumes "transform_get_run_date event = Inr (y, m, d, fx_dt)"
  shows "\<exists>rest. snd (transform_lambda_handler bucket env event)
           = S3GetObject bucket (transform_build_s3_key y m d) # rest"
proof (cases "s3_get_object env bucket (transform_build_s3_key y m d)")
  case (Inl e)
  then show ?thesis
    using assms by (simp add: transform_lambda_handler_def raw_key_prefix)
next
  case got: (Inr data)
  show ?thesis
  proof (cases "transform_validate_fx_data data")
    case (Inl e)
    then show ?thesis
      using assms got by (simp add: transform_lambda_handler_def raw_key_prefix)
  next
    case (Inr u)
    obtain rest where "snd (normalize_and_write bucket data y m d fx_dt
        [S3GetObject bucket (transform_build_s3_key y m d)])
       = [S3GetObject bucket (transform_build_s3_key y m d)] @ rest"
      using normalize_and_write_trace by blast
    then show ?thesis
      using assms got Inr
      by (cases "normalize_and_write bucket data y m d fx_dt
            [S3GetObject bucket (transform_build_s3_key y m d)]")
         (auto simp: transform_lambda_handler_def raw_key_prefix split: sum.splits)
  qed
qed

text \<open>
  Claim C10. The key built by \<open>build_s3_key\<close> starts with "raw/" for every triple,
  so the handler never returns through its skip branch, whatever the event and the
  object store; and whenever the run date resolves, the first effect of the run is the
  read of the raw object under that key.
\<close>

theorem transform_skip_guard_unreachable:
  "is_prefix ''raw/'' (transform_build_s3_key y m d)
   \<and> fst (transform_lambda_handler bucket env event) \<noteq> Inr TransformSkipped
   \<and> (transform_get_run_date event = Inr (y, m, d, fx_dt) \<longrightarrow>
        (\<exists>rest. snd (transform_lambda_handler bucket env event)
           = S3GetObject bucket (transform_build_s3_key y m d) # rest))"
  using raw_key_prefix [of y m d] transform_handler_not_skipped [of bucket env event]
    transform_handler_reads_raw [of event y m d fx_dt bucket env]
  by blast

theorem transform_skip_guard_unreachable_witness:
  "transform_get_run_date friday_event = Inr (''2024'', ''02'', ''29'', thursday_dt)
   \<and> is_prefix ''raw/'' ''raw/year=2024/month=02/day=29/rates.json''
   \<and> fst (transform_lambda_handler ''fx-bucket'' (transform_env_of two_quotes_payload) friday_event)
       \<noteq> Inr TransformSkipped
   \<and> (\<exists>rest. snd (transform_lambda_handler ''fx-bucket'' (transform_env_of two_quotes_payload)
                     friday_event)
         = S3GetObject ''fx-bucket'' ''raw/year=2024/month=02/day=29/rates.json'' # rest)"
  using transform_skip_guard_unreachable
    [of "''2024''" "''02''" "''29''" "''fx-bucket''" "transform_env_of two_quotes_payload"
        friday_event thursday_dt]
  by (simp add: transform_get_run_date_friday transform_build_s3_key_def)

lemma weekday_thursday: "weekday thursday_dt = 3"
  by (simp add: weekday_def thursday_dt_def ordinal_eval)

lemma get_run_date_formats:
  assumes "transform_get_run_date event = Inr (y, m, d, fx_dt)"
  shows "y = format_d 4 (year fx_dt) \<and> m = format_d 2 (month fx_dt) \<and> d = format_d 2 (day fx_dt)"
  using assms
  by (auto simp: transform_get_run_date_def bind_exn_def split: sum.splits)

lemma normalize_and_write_obj:
  assumes "py_getitem data ''quotes'' = Inr (JObj qs)"
  shows "normalize_and_write bucket data y m d fx_dt tr =
     (Inr (map (\<lambda>(pair, rate). write_key pair y m d) qs),
      tr @ map (\<lambda>(pair, rate). S3PutObject bucket (write_key pair y m d)
                  (normalized_record pair rate y m d fx_dt)) qs)"
proof -
  have "write_loop bucket qs y m d fx_dt [] tr =
      (map (\<lambda>(pair, rate). write_key pair y m d) qs,
       tr @ map (\<lambda>(pair, rate). S3PutObject bucket (write_key pair y m d)
                  (normalized_record pair rate y m d fx_dt)) qs)"
    using write_loop_keys [of bucket qs y m d fx_dt "[]" tr]
      write_loop_trace [of bucket qs y m d fx_dt "[]" tr]
    by (cases "write_loop bucket qs y m d fx_dt [] tr") simp
  then show ?thesis
    using assms by (simp add: normalize_and_write_def bind_exn_def py_items_def)
qed

text \<open>
  Claim C9. When the run date resolves, the raw object is read, it passes the
  validator and its \<open>quotes\<close> is a mapping, the handler writes, after the one read,
  exactly one object per entry of \<open>quotes\<close> and in the order of the entries: under
  the key processed/pair={pair}/year={Y}/month={M}/day={D}/data.json, the record with
  the entry's pair and rate, the date "Y-M-D" and \<open>market_open\<close> equal to (weekday of
  the business date < 5). It returns status 200 with the list of these keys, one per
  entry. Y, M, D are the zero-padded fields of the business date.
\<close>

theorem transform_writes_one_record_per_quote:
  assumes "transform_get_run_date event = Inr (y, m, d, fx_dt)"
    and "s3_get_object env bucket
           (''raw/year='' @ y @ ''/month='' @ m @ ''/day='' @ d @ ''/rates.json'') = Inr data"
    and "transform_validate_fx_data data = Inr ()"
    and "py_getitem data ''quotes'' = Inr (JObj qs)"
  shows "transform_lambda_handler bucket env event =
     (Inr (TransformOk 200
        (map (\<lambda>(pair, rate). ''processed/pair='' @ pair @ ''/year='' @ y @ ''/month='' @ m
                @ ''/day='' @ d @ ''/data.json'') qs)),
      S3GetObject bucket (''raw/year='' @ y @ ''/month='' @ m @ ''/day='' @ d @ ''/rates.json'')
      # map (\<lambda>(pair, rate).
          S3PutObject bucket
            (''processed/pair='' @ pair @ ''/year='' @ y @ ''/month='' @ m
                @ ''/day='' @ d @ ''/data.json'')
            (JObj [(''pair'', JStr pair), (''rate'', rate),
                   (''date'', JStr (y @ ''-'' @ m @ ''-'' @ d)),
                   (''market_open'', JBool (weekday fx_dt < 5))])) qs)
   \<and> y = format_d 4 (year fx_dt) \<and> m = format_d 2 (month fx_dt) \<and> d = format_d 2 (day fx_dt)"
proof -
  have k: "transform_build_s3_key y m d
      = ''raw/year='' @ y @ ''/month='' @ m @ ''/day='' @ d @ ''/rates.json''"
    by (simp add: transform_build_s3_key_def)
  have p: "is_prefix ''raw/'' (''raw/year='' @ y @ ''/month='' @ m @ ''/day='' @ d @ ''/rates.json'')"
    by simp
  have "transform_lambda_handler bucket env event =
     (Inr (TransformOk 200 (map (\<lambda>(pair, rate). write_key pair y m d) qs)),
      S3GetObject bucket (''raw/year='' @ y @ ''/month='' @ m @ ''/day='' @ d @ ''/rates.json'')
      # map (\<lambda>(pair, rate). S3PutObject bucket (write_key pair y m d)
                  (normalized_record pair rate y m d fx_dt)) qs)"
    unfolding transform_lambda_handler_def
    using assms(1-3) p
    by (simp add: k normalize_and_write_obj [OF assms(4)])
  then show ?thesis
    using get_run_date_formats [OF assms(1)]
    by (simp add: write_key_def normalized_record_def is_weekday_def)
qed

theorem transform_writes_one_record_per_quote_witness:
  "transform_get_run_date friday_event = Inr (''2024'', ''02'', ''29'', thursday_dt)
   \<and> s3_get_object (transform_env_of two_quotes_payload) ''fx-bucket''
       ''raw/year=2024/month=02/day=29/rates.json'' = Inr two_quotes_payload
   \<and> transform_validate_fx_data two_quotes_payload = Inr ()
   \<and> py_getitem two_quotes_payload ''quotes''
       = Inr (JObj [(''USDJPY'', JNum 150), (''USDEUR'', JNum 0.9)])
   \<and> transform_lambda_handler ''fx-bucket'' (transform_env_of two_quotes_payload) friday_event =
       (Inr (TransformOk 200
          [''processed/pair=USDJPY/year=2024/month=02/day=29/data.json'',
           ''processed/pair=USDEUR/year=2024/month=02/day=29/data.json'']),
        [S3GetObject ''fx-bucket'' ''raw/year=2024/month=02/day=29/rates.json'',
         S3PutObject ''fx-bucket'' ''processed/pair=USDJPY/year=2024/month=02/day=29/data.json''
           (JObj [(''pair'', JStr ''USDJPY''), (''rate'', JNum 150),
                  (''date'', JStr ''2024-02-29''), (''market_open'', JBool True)]),
         S3PutObject ''fx-bucket'' ''processed/pair=USDEUR/year=2024/month=02/day=29/data.json''
           (JObj [(''pair'', JStr ''USDEUR''), (''rate'', JNum 0.9),
                  (''date'', JStr ''2024-02-29''), (''market_open'', JBool True)])])"
proof -
  have a: "s3_get_object (transform_env_of two_quotes_payload) ''fx-bucket''
       (''raw/year='' @ ''2024'' @ ''/month='' @ ''02'' @ ''/day='' @ ''29'' @ ''/rates.json'')
     = Inr two_quotes_payload"
    by (simp add: transform_env_of_def)
  have b: "transform_validate_fx_data two_quotes_payload = Inr ()"
    by (simp add: transform_validate_fx_data_def two_quotes_payload_def required_fields_def
        bind_exn_def)
  have c: "py_getitem two_quotes_payload ''quotes''
       = Inr (JObj [(''USDJPY'', JNum 150), (''USDEUR'', JNum 0.9)])"
    by (simp add: two_quotes_payload_def)
  have d: "transform_lambda_handler ''fx-bucket'' (transform_env_of two_quotes_payload)
        friday_event =
       (Inr (TransformOk 200
          [''processed/pair=USDJPY/year=2024/month=02/day=29/data.json'',
           ''processed/pair=USDEUR/year=2024/month=02/day=29/data.json'']),
        [S3GetObject ''fx-bucket'' ''raw/year=2024/month=02/day=29/rates.json'',
         S3PutObject ''fx-bucket'' ''processed/pair=USDJPY/year=2024/month=02/day=29/data.json''
           (JObj [(''pair'', JStr ''USDJPY''), (''rate'', JNum 150),
                  (''date'', JStr ''2024-02-29''), (''market_open'', JBool True)]),
         S3PutObject ''fx-bucket'' ''processed/pair=USDEUR/year=2024/month=02/day=29/data.json''
           (JObj [(''pair'', JStr ''USDEUR''), (''rate'', JNum 0.9),
                  (''date'', JStr ''2024-02-29''), (''market_open'', JBool True)])])"
    using transform_writes_one_record_per_quote
      [OF transform_get_run_date_friday a b c, THEN conjunct1]
    by (simp add: weekday_thursday)
  from a b c d show ?thesis
    by (simp add: transform_get_run_date_friday)
qed

section \<open>Analysis: the scalar of a result set\<close>

text \<open>
  Claim C6. The extraction fails with IndexError when the result set has fewer than two
  rows (no data row after the header). With at least two rows, where the first cell of
  row 1 holds a text that converts to the number \<open>r\<close>, it returns \<open>r\<close>; the outcome
  depends on row 1 only, not on the header row or on later rows. The one effect is the
  request for the results.
\<close>

theorem get_single_value_reads_row_one:
  "(length (query_results env qid) < 2 \<longrightarrow> fst (get_single_value env qid st) = Inl IndexError)
   \<and> (2 \<le> length (query_results env qid)
        \<and> query_results env qid ! 1 = Some s # cells \<and> to_float env s = Some r \<longrightarrow>
      fst (get_single_value env qid st) = Inr r)
   \<and> (2 \<le> length rows \<and> 2 \<le> length rows' \<and> rows ! 1 = rows' ! 1 \<longrightarrow>
      single_value env rows = single_value env rows')
   \<and> snd (get_single_value env qid st) = emit (AthenaGetQueryResults qid) st"
  by (simp add: get_single_value_def single_value_def)

theorem get_single_value_reads_row_one_witness:
  "length (query_results (rates_env all_succeeded) ''q-none'') < 2
   \<and> fst (get_single_value (rates_env all_succeeded) ''q-none'' initial_state) = Inl IndexError
   \<and> 2 \<le> length (query_results (rates_env all_succeeded) ''q-today'')
   \<and> query_results (rates_env all_succeeded) ''q-today'' ! 1 = Some ''151.5'' # []
   \<and> to_float (rates_env all_succeeded) ''151.5'' = Some 151.5
   \<and> fst (get_single_value (rates_env all_succeeded) ''q-today'' initial_state) = Inr 151.5"
proof -
  have a: "length (query_results (rates_env all_succeeded) ''q-none'') < 2"
    by (simp add: rates_env_def)
  have b: "2 \<le> length (query_results (rates_env all_succeeded) ''q-today'')
      \<and> query_results (rates_env all_succeeded) ''q-today'' ! 1 = Some ''151.5'' # []
      \<and> to_float (rates_env all_succeeded) ''151.5'' = Some 151.5"
    by (simp add: rates_env_def)
  have c: "fst (get_single_value (rates_env all_succeeded) ''q-none'' initial_state)
      = Inl IndexError"
    using a get_single_value_reads_row_one
      [where env = "rates_env all_succeeded" and qid = "''q-none''" and st = initial_state]
    by blast
  have d: "fst (get_single_value (rates_env all_succeeded) ''q-today'' initial_state)
      = Inr 151.5"
    using b get_single_value_reads_row_one
      [where env = "rates_env all_succeeded" and qid = "''q-today''" and st = initial_state
         and s = "''151.5''" and cells = "[]" and r = "151.5"]
    by blast
  from a b c d show ?thesis by blast
qed

section \<open>Analysis: the wait and the two rate queries\<close>

text \<open>
  The wait returns as soon as a status request is answered with a terminal state: after
  \<open>n\<close> answers that are not terminal it has made \<open>n\<close> requests, each followed by a
  sleep of 2, and then the request that got the terminal answer. It never publishes a
  metric.
\<close>

lemma wait_for_query_step:
  assumes "State (query_execution env (polled st)) \<notin> {''SUCCEEDED'', ''FAILED'', ''CANCELLED''}"
  shows "wait_for_query env qid st =
     wait_for_query env qid
       (emit (Sleep 2) (emit (AthenaGetQueryExecution qid) (st\<lparr>polled := polled st + 1\<rparr>)))"
  using assms by (subst wait_for_query.simps) simp

lemma wait_for_query_pending:
  assumes "\<forall>i<n. State (query_execution env (polled st + i))
             \<notin> {''SUCCEEDED'', ''FAILED'', ''CANCELLED''}"
  shows "wait_for_query env qid st =
     wait_for_query env qid
       (st\<lparr>polled := polled st + n,
           effects := effects st @ concat (replicate n [AthenaGetQueryExecution qid, Sleep 2])\<rparr>)"
  using assms
proof (induction n arbitrary: st)
  case 0
  then show ?case by simp
next
  case (Suc n)
  let ?st1 = "emit (Sleep 2) (emit (AthenaGetQueryExecution qid) (st\<lparr>polled := polled st + 1\<rparr>))"
  have p: "polled ?st1 = polled st + 1"
    and e: "effects ?st1 = effects st @ [AthenaGetQueryExecution qid, Sleep 2]"
    by (simp_all add: emit_def)
  from Suc.prems have "State (query_execution env (polled st + 0))
      \<notin> {''SUCCEEDED'', ''FAILED'', ''CANCELLED''}"
    by blast
  then have s: "wait_for_query env qid st = wait_for_query env qid ?st1"
    using wait_for_query_step [of env st qid] by simp
  have "\<forall>i<n. State (query_execution env (polled ?st1 + i))
      \<notin> {''SUCCEEDED'', ''FAILED'', ''CANCELLED''}"
  proof (intro allI impI)
    fix i assume "i < n"
    then have "Suc i < Suc n" by simp
    with Suc.prems have "State (query_execution env (polled st + Suc i))
      \<notin> {''SUCCEEDED'', ''FAILED'', ''CANCELLED''}"
      by blast
    then show "State (query_execution env (polled ?st1 + i))
      \<notin> {''SUCCEEDED'', ''FAILED'', ''CANCELLED''}"
      by (simp add: emit_def)
  qed
  from Suc.IH [OF this] have "wait_for_query env qid ?st1 =
     wait_for_query env qid
       (?st1\<lparr>polled := polled ?st1 + n,
           effects := effects ?st1 @ concat (replicate n [AthenaGetQueryExecution qid, Sleep 2])\<rparr>)" .
  moreover have "?st1\<lparr>polled := polled ?st1 + n,
           effects := effects ?st1 @ concat (replicate n [AthenaGetQueryExecution qid, Sleep 2])\<rparr>
     = st\<lparr>polled := polled st + Suc n,
           effects := effects st
             @ concat (replicate (Suc n) [AthenaGetQueryExecution qid, Sleep 2])\<rparr>"
    by (simp add: emit_def)
  ultimately show ?case using s by simp
qed

lemma wait_for_query_succeeded:
  assumes "State (query_execution env (polled st)) = ''SUCCEEDED''"
  shows "wait_for_query env qid st =
     Some (''SUCCEEDED'',
           st\<lparr>polled := polled st + 1, effects := effects st @ [AthenaGetQueryExecution qid]\<rparr>)"
  using assms by (subst wait_for_query.simps) (simp add: emit_def)

lemma wait_for_query_failed:
  assumes "State (query_execution env (polled st)) \<in> {''FAILED'', ''CANCELLED''}"
  shows "wait_for_query env qid st =
     Some (State (query_execution env (polled st)),
           st\<lparr>polled := polled st + 1,
               effects := effects st @
                 [AthenaGetQueryExecution qid,
                  LogError (''Athena query failed: '' @
                    (case StateChangeReason (query_execution env (polled st)) of
                       None \<Rightarrow> ''Unknown'' | Some reason \<Rightarrow> reason))]\<rparr>)"
  using assms by (subst wait_for_query.simps) (auto simp: emit_def)

lemma wait_for_query_no_metric:
  assumes "wait_for_query env qid st = Some r"
  shows "filter is_put_metric (effects (snd r)) = filter is_put_metric (effects st)"
proof (rule wait_for_query.raw_induct
    [where P = "\<lambda>env qid st r. filter is_put_metric (effects (snd r))
                  = filter is_put_metric (effects st)", OF _ assms])
  fix wait :: "athena_env \<Rightarrow> string \<Rightarrow> run_state \<Rightarrow> (string \<times> run_state) option"
    and env :: athena_env and qid :: string and st :: run_state and r :: "string \<times> run_state"
  assume IH: "\<And>env qid st r. wait env qid st = Some r \<Longrightarrow>
      filter is_put_metric (effects (snd r)) = filter is_put_metric (effects st)"
  assume step: "(if State (query_execution env (polled st)) = ''SUCCEEDED''
       then Some (State (query_execution env (polled st)),
              emit (AthenaGetQueryExecution qid) (st\<lparr>polled := polled st + 1\<rparr>))
      else if State (query_execution env (polled st)) = ''FAILED''
            \<or> State (query_execution env (polled st)) = ''CANCELLED''
       then Some (State (query_execution env (polled st)),
              emit (LogError (''Athena query failed: '' @
                      (case StateChangeReason (query_execution env (polled st)) of
                         None \<Rightarrow> ''Unknown'' | Some reason \<Rightarrow> reason)))
                (emit (AthenaGetQueryExecution qid) (st\<lparr>polled := polled st + 1\<rparr>)))
      else wait env qid
             (emit (Sleep 2) (emit (AthenaGetQueryExecution qid) (st\<lparr>polled := polled st + 1\<rparr>))))
     = Some r"
  show "filter is_put_metric (effects (snd r)) = filter is_put_metric (effects st)"
  proof (cases "State (query_execution env (polled st)) \<in> {''SUCCEEDED'', ''FAILED'', ''CANCELLED''}")
    case True
    with step show ?thesis by (auto simp: emit_def split: if_splits)
  next
    case False
    with step have "wait env qid
             (emit (Sleep 2) (emit (AthenaGetQueryExecution qid) (st\<lparr>polled := polled st + 1\<rparr>)))
       = Some r"
      by (simp split: if_splits)
    from IH [OF this] show ?thesis by (simp add: emit_def)
  qed
qed

text \<open>
  One rate query: the submission, the wait, and then either the exception with the
  caller's fixed message or the extraction of the value.
\<close>

lemma run_rate_query_failed:
  assumes "\<forall>i<n. State (query_execution env (polled st + i))
             \<notin> {''SUCCEEDED'', ''FAILED'', ''CANCELLED''}"
    and "State (query_execution env (polled st + n)) \<in> {''FAILED'', ''CANCELLED''}"
  shows "run_rate_query cfg env failure y m d st =
     Some (Inl (Exception failure),
       st\<lparr>started := started st + 1, polled := polled st + n + 1,
          effects := effects st @ [AthenaStartQuery (rate_query cfg y m d)]
            @ concat (replicate n [AthenaGetQueryExecution (execution_id env (started st)), Sleep 2])
            @ [AthenaGetQueryExecution (execution_id env (started st)),
               LogError (''Athena query failed: '' @
                 (case StateChangeReason (query_execution env (polled st + n)) of
                    None \<Rightarrow> ''Unknown'' | Some reason \<Rightarrow> reason))]\<rparr>)"
proof -
  let ?qid = "execution_id env (started st)"
  let ?st1 = "emit (AthenaStartQuery (rate_query cfg y m d)) (st\<lparr>started := started st + 1\<rparr>)"
  let ?st2 = "?st1\<lparr>polled := polled ?st1 + n,
           effects := effects ?st1 @ concat (replicate n [AthenaGetQueryExecution ?qid, Sleep 2])\<rparr>"
  have p1: "polled ?st1 = polled st" by (simp add: emit_def)
  have p2: "polled ?st2 = polled st + n" by (simp add: emit_def)
  have pre: "\<forall>i<n. State (query_execution env (polled ?st1 + i))
             \<notin> {''SUCCEEDED'', ''FAILED'', ''CANCELLED''}"
    using assms(1) by (simp only: p1)
  have f: "State (query_execution env (polled ?st2)) \<in> {''FAILED'', ''CANCELLED''}"
    using assms(2) by (simp only: p2)
  have ne: "State (query_execution env (polled ?st2)) \<noteq> ''SUCCEEDED''"
    using f by auto
  show ?thesis
    unfolding run_rate_query_def start_query_def prod.case
      wait_for_query_pending [OF pre] wait_for_query_failed [OF f] option.case
    using ne by (simp add: emit_def)
qed

lemma run_rate_query_succeeded:
  assumes "\<forall>i<n. State (query_execution env (polled st + i))
             \<notin> {''SUCCEEDED'', ''FAILED'', ''CANCELLED''}"
    and "State (query_execution env (polled st + n)) = ''SUCCEEDED''"
  shows "run_rate_query cfg env failure y m d st =
     Some (single_value env (query_results env (execution_id env (started st))),
       st\<lparr>started := started st + 1, polled := polled st + n + 1,
          effects := effects st @ [AthenaStartQuery (rate_query cfg y m d)]
            @ concat (replicate n [AthenaGetQueryExecution (execution_id env (started st)), Sleep 2])
            @ [AthenaGetQueryExecution (execution_id env (started st)),
               AthenaGetQueryResults (execution_id env (started st))]\<rparr>)"
proof -
  let ?qid = "execution_id env (started st)"
  let ?st1 = "emit (AthenaStartQuery (rate_query cfg y m d)) (st\<lparr>started := started st + 1\<rparr>)"
  let ?st2 = "?st1\<lparr>polled := polled ?st1 + n,
           effects := effects ?st1 @ concat (replicate n [AthenaGetQueryExecution ?qid, Sleep 2])\<rparr>"
  have p1: "polled ?st1 = polled st" by (simp add: emit_def)
  have p2: "polled ?st2 = polled st + n" by (simp add: emit_def)
  have pre: "\<forall>i<n. State (query_execution env (polled ?st1 + i))
             \<notin> {''SUCCEEDED'', ''FAILED'', ''CANCELLED''}"
    using assms(1) by (simp only: p1)
  have f: "State (query_execution env (polled ?st2)) = ''SUCCEEDED''"
    using assms(2) by (simp only: p2)
  show ?thesis
    unfolding run_rate_query_def start_query_def prod.case
      wait_for_query_pending [OF pre] wait_for_query_succeeded [OF f] option.case
    by (simp add: emit_def get_single_value_def)
qed

lemma run_rate_query_no_metric:
  assumes "run_rate_query cfg env failure y m d st = Some (r, st')"
  shows "filter is_put_metric (effects st') = filter is_put_metric (effects st)"
proof -
  let ?qid = "execution_id env (started st)"
  let ?st1 = "emit (AthenaStartQuery (rate_query cfg y m d)) (st\<lparr>started := started st + 1\<rparr>)"
  obtain s st2 where w: "wait_for_query env ?qid ?st1 = Some (s, st2)"
    using assms by (auto simp: run_rate_query_def start_query_def split: option.splits)
  from wait_for_query_no_metric [OF w]
  have m2: "filter is_put_metric (effects st2) = filter is_put_metric (effects st)"
    by (simp add: emit_def)
  from assms w have "st' = st2 \<or> st' = emit (AthenaGetQueryResults ?qid) st2"
    by (auto simp: run_rate_query_def start_query_def get_single_value_def split: if_splits)
  then show ?thesis using m2 by (auto simp: emit_def)
qed

subsection \<open>The handler on a weekday\<close>

lemma get_yesterdays_date_thursday:
  "get_yesterdays_date thursday_dt = Inr (''2024'', ''02'', ''28'')"
  by (simp add: get_yesterdays_date_def thursday_dt_def ordinal_eval bind_exn_def format_eval)

lemma is_weekend_thursday: "\<not> is_weekend thursday_dt"
  by (simp add: is_weekend_def weekday_thursday)

lemma analysis_handler_weekday:
  assumes "analysis_get_run_date event = Inr (y, m, d, fx_dt)"
    and "get_yesterdays_date fx_dt = Inr (y_pd, m_pd, d_pd)"
    and "\<not> is_weekend fx_dt"
  shows "analysis_lambda_handler cfg env event =
     (case get_todays_rate cfg env y m d initial_state of
        None \<Rightarrow> None
      | Some (Inl e, st1) \<Rightarrow> Some (Inl e, effects st1)
      | Some (Inr todays_rate, st1) \<Rightarrow>
         (case get_yesterdays_rate cfg env y_pd m_pd d_pd st1 of
            None \<Rightarrow> None
          | Some (Inl e, st2) \<Rightarrow> Some (Inl e, effects st2)
          | Some (Inr yesterdays_rate, st2) \<Rightarrow>
             if yesterdays_rate = 0 then Some (Inl ZeroDivisionError, effects st2)
             else
              (let deviation = \<bar>todays_rate - yesterdays_rate\<bar> / yesterdays_rate
               in Some (Inr (AnalysisOk (PAIR cfg) todays_rate yesterdays_rate deviation),
                        effects (publish_metric cfg deviation st2)))))"
  using assms by (simp add: analysis_lambda_handler_def)

lemma get_todays_rate_no_metric:
  assumes "get_todays_rate cfg env y m d initial_state = Some (r, st1)"
  shows "filter is_put_metric (effects st1) = []"
  using run_rate_query_no_metric [OF assms [unfolded get_todays_rate_def]]
  by (simp add: initial_state_def)

lemma get_yesterdays_rate_no_metric:
  assumes "get_yesterdays_rate cfg env y m d st1 = Some (r, st2)"
  shows "filter is_put_metric (effects st2) = filter is_put_metric (effects st1)"
  using run_rate_query_no_metric [OF assms [unfolded get_yesterdays_rate_def]] .

lemma analysis_failure_no_metric:
  assumes "analysis_lambda_handler cfg env event = Some (Inl e, tr)"
  shows "filter is_put_metric tr = []"
proof (cases "analysis_get_run_date event")
  case (Inl x)
  with assms show ?thesis by (simp add: analysis_lambda_handler_def)
next
  case (Inr res)
  obtain y m d fx_dt where res: "res = (y, m, d, fx_dt)" by (cases res) auto
  show ?thesis
  proof (cases "get_yesterdays_date fx_dt")
    case (Inl x)
    with assms Inr res show ?thesis by (simp add: analysis_lambda_handler_def)
  next
    case pd: (Inr res_pd)
    obtain y_pd m_pd d_pd where res_pd: "res_pd = (y_pd, m_pd, d_pd)" by (cases res_pd) auto
    show ?thesis
    proof (cases "is_weekend fx_dt")
      case True
      with assms Inr res pd res_pd show ?thesis by (simp add: analysis_lambda_handler_def)
    next
      case False
      note h = analysis_handler_weekday
        [OF Inr [unfolded res] pd [unfolded res_pd] False, of cfg env]
      show ?thesis
      proof (cases "get_todays_rate cfg env y m d initial_state")
        case None
        with assms h show ?thesis by simp
      next
        case (Some p1)
        obtain r1 st1 where p1: "p1 = (r1, st1)" by (cases p1) auto
        note m1 = get_todays_rate_no_metric [OF Some [unfolded p1]]
        show ?thesis
        proof (cases r1)
          case (Inl e1)
          with assms h Some p1 m1 show ?thesis by auto
        next
          case t: (Inr todays_rate)
          show ?thesis
          proof (cases "get_yesterdays_rate cfg env y_pd m_pd d_pd st1")
            case None
            with assms h Some p1 t show ?thesis by simp
          next
            case s2: (Some p2)
            obtain r2 st2 where p2: "p2 = (r2, st2)" by (cases p2) auto
            note m2 = get_yesterdays_rate_no_metric [OF s2 [unfolded p2]]
            show ?thesis
            proof (cases r2)
              case (Inl e2)
              with assms h Some p1 t s2 p2 m1 m2 show ?thesis by auto
            next
              case (Inr yesterdays_rate)
              with assms h Some p1 t s2 p2 m1 m2 show ?thesis
                by (auto simp: Let_def split: if_splits)
            qed
          qed
        qed
      qed
    qed
  qed
qed

lemma analysis_first_query_failed:
  assumes "analysis_get_run_date event = Inr (y, m, d, fx_dt)"
    and "get_yesterdays_date fx_dt = Inr (y_pd, m_pd, d_pd)"
    and "\<not> is_weekend fx_dt"
    and "\<forall>i<n. State (query_execution env i) \<notin> {''SUCCEEDED'', ''FAILED'', ''CANCELLED''}"
    and "State (query_execution env n) \<in> {''FAILED'', ''CANCELLED''}"
  shows "analysis_lambda_handler cfg env event =
     Some (Inl (Exception ''Athena query for todays rate failed''),
       [AthenaStartQuery (rate_query cfg y m d)]
       @ concat (replicate n [AthenaGetQueryExecution (execution_id env 0), Sleep 2])
       @ [AthenaGetQueryExecution (execution_id env 0),
          LogError (''Athena query failed: '' @
            (case StateChangeReason (query_execution env n) of
               None \<Rightarrow> ''Unknown'' | Some reason \<Rightarrow> reason))])"
proof -
  have pre: "\<forall>i<n. State (query_execution env (polled initial_state + i))
      \<notin> {''SUCCEEDED'', ''FAILED'', ''CANCELLED''}"
    using assms(4) by (simp add: initial_state_def)
  have f: "State (query_execution env (polled initial_state + n)) \<in> {''FAILED'', ''CANCELLED''}"
    using assms(5) by (simp add: initial_state_def)
  show ?thesis
    unfolding analysis_handler_weekday [OF assms(1-3)] get_todays_rate_def
      run_rate_query_failed [OF pre f]
    by (simp add: initial_state_def)
qed

lemma analysis_second_query_failed:
  assumes "analysis_get_run_date event = Inr (y, m, d, fx_dt)"
    and "get_yesterdays_date fx_dt = Inr (y_pd, m_pd, d_pd)"
    and "\<not> is_weekend fx_dt"
    and "get_todays_rate cfg env y m d initial_state = Some (Inr today_rate, st1)"
    and "\<forall>i<n. State (query_execution env (polled st1 + i))
           \<notin> {''SUCCEEDED'', ''FAILED'', ''CANCELLED''}"
    and "State (query_execution env (polled st1 + n)) \<in> {''FAILED'', ''CANCELLED''}"
  shows "analysis_lambda_handler cfg env event =
     Some (Inl (Exception ''Athena query for daily average failed''),
       effects st1 @ [AthenaStartQuery (rate_query cfg y_pd m_pd d_pd)]
       @ concat (replicate n [AthenaGetQueryExecution (execution_id env (started st1)), Sleep 2])
       @ [AthenaGetQueryExecution (execution_id env (started st1)),
          LogError (''Athena query failed: '' @
            (case StateChangeReason (query_execution env (polled st1 + n)) of
               None \<Rightarrow> ''Unknown'' | Some reason \<Rightarrow> reason))])"
  by (simp add: analysis_handler_weekday [OF assms(1-3)] assms(4) get_yesterdays_rate_def
      run_rate_query_failed [OF assms(5,6)])

subsection \<open>Runs of the example engines\<close>






lemma todays_rate_then_cancelled:
  "get_todays_rate default_analysis_config (rates_env succeeded_then_cancelled)
     ''2024'' ''02'' ''29'' initial_state =
   Some (Inr 151.5,
     \<lparr>started = 1, polled = 1,
      effects = [AthenaStartQuery (rate_query default_analysis_config ''2024'' ''02'' ''29''),
                 AthenaGetQueryExecution ''q-today'', AthenaGetQueryResults ''q-today'']\<rparr>)"
proof -
  have pre: "\<forall>i<0. State (query_execution (rates_env succeeded_then_cancelled)
        (polled initial_state + i))
      \<notin> {''SUCCEEDED'', ''FAILED'', ''CANCELLED''}"
    by simp
  have s: "State (query_execution (rates_env succeeded_then_cancelled) (polled initial_state + 0))
      = ''SUCCEEDED''"
    by (simp add: rates_env_def succeeded_then_cancelled_def initial_state_def)
  show ?thesis
    unfolding get_todays_rate_def run_rate_query_succeeded [OF pre s]
    by (simp add: rates_env_def initial_state_def single_value_def)
qed

section \<open>Analysis: the deviation and its metric\<close>



section \<open>Analysis: a query that fails\<close>

text \<open>
  Claim C3, as stated: when a query ends FAILED or CANCELLED the job raises an error
  whose payload contains the engine's StateChangeReason. It does not. With the answers
  RUNNING, RUNNING, FAILED (reason "Query exhausted resources") the handler raises
  \<open>Exception("Athena query for todays rate failed")\<close>: the reason is written to the
  error log by the wait and is no part of the exception.
\<close>

theorem failed_query_reason_counterexample:
  "State (running_running_failed 0) = ''RUNNING''
   \<and> State (running_running_failed 1) = ''RUNNING''
   \<and> State (running_running_failed 2) = ''FAILED''
   \<and> StateChangeReason (running_running_failed 2) = Some ''Query exhausted resources''
   \<and> analysis_lambda_handler default_analysis_config (rates_env running_running_failed)
       friday_event =
     Some (Inl (Exception ''Athena query for todays rate failed''),
       [AthenaStartQuery (rate_query default_analysis_config ''2024'' ''02'' ''29''),
        AthenaGetQueryExecution ''q-today'', Sleep 2,
        AthenaGetQueryExecution ''q-today'', Sleep 2,
        AthenaGetQueryExecution ''q-today'',
        LogError ''Athena query failed: Query exhausted resources''])
   \<and> \<not> is_infix ''Query exhausted resources'' ''Athena query for todays rate failed''"
proof -
  have p: "\<forall>i<2. State (query_execution (rates_env running_running_failed) i)
      \<notin> {''SUCCEEDED'', ''FAILED'', ''CANCELLED''}"
    by (simp add: rates_env_def running_running_failed_def)
  have f: "State (query_execution (rates_env running_running_failed) 2)
      \<in> {''FAILED'', ''CANCELLED''}"
    by (simp add: rates_env_def running_running_failed_def)
  have h: "analysis_lambda_handler default_analysis_config (rates_env running_running_failed)
       friday_event =
     Some (Inl (Exception ''Athena query for todays rate failed''),
       [AthenaStartQuery (rate_query default_analysis_config ''2024'' ''02'' ''29''),
        AthenaGetQueryExecution ''q-today'', Sleep 2,
        AthenaGetQueryExecution ''q-today'', Sleep 2,
        AthenaGetQueryExecution ''q-today'',
        LogError ''Athena query failed: Query exhausted resources''])"
    using analysis_first_query_failed
      [OF analysis_get_run_date_friday get_yesterdays_date_thursday is_weekend_thursday p f,
       of default_analysis_config]
    by (simp add: rates_env_def running_running_failed_def replicate_small)
  have i: "\<not> is_infix ''Query exhausted resources'' ''Athena query for todays rate failed''"
    by simp
  from h i show ?thesis
    by (simp add: running_running_failed_def)
qed

text \<open>
  Claim C3, amended. On a weekday business date: when the first query ends FAILED or
  CANCELLED after \<open>n\<close> answers that are not terminal, the handler raises Exception with
  the fixed message "Athena query for todays rate failed"; when the first query gives a
  rate and the second ends FAILED or CANCELLED, it raises Exception with the fixed
  message "Athena query for daily average failed". In both cases the last effect of
  the run is the error log line "Athena query failed: " followed by the engine's
  StateChangeReason, or by "Unknown" when the engine states none; the effects before it
  are the submission and the status requests with their sleeps. Whenever the handler
  raises, on any event, its run holds no metric.
\<close>

theorem failed_query_raises_fixed_message:
  assumes "analysis_get_run_date event = Inr (y, m, d, fx_dt)"
    and "get_yesterdays_date fx_dt = Inr (y_pd, m_pd, d_pd)"
    and "\<not> is_weekend fx_dt"
  shows "((\<forall>i<n. State (query_execution env i) \<notin> {''SUCCEEDED'', ''FAILED'', ''CANCELLED''})
          \<and> State (query_execution env n) \<in> {''FAILED'', ''CANCELLED''} \<longrightarrow>
        analysis_lambda_handler cfg env event =
          Some (Inl (Exception ''Athena query for todays rate failed''),
            [AthenaStartQuery (rate_query cfg y m d)]
            @ concat (replicate n [AthenaGetQueryExecution (execution_id env 0), Sleep 2])
            @ [AthenaGetQueryExecution (execution_id env 0),
               LogError (''Athena query failed: '' @
                 (case StateChangeReason (query_execution env n) of
                    None \<Rightarrow> ''Unknown'' | Some reason \<Rightarrow> reason))]))
     \<and> (get_todays_rate cfg env y m d initial_state = Some (Inr today_rate, st1)
          \<and> (\<forall>i<k. State (query_execution env (polled st1 + i))
                 \<notin> {''SUCCEEDED'', ''FAILED'', ''CANCELLED''})
          \<and> State (query_execution env (polled st1 + k)) \<in> {''FAILED'', ''CANCELLED''} \<longrightarrow>
        analysis_lambda_handler cfg env event =
          Some (Inl (Exception ''Athena query for daily average failed''),
            effects st1 @ [AthenaStartQuery (rate_query cfg y_pd m_pd d_pd)]
            @ concat (replicate k
                [AthenaGetQueryExecution (execution_id env (started st1)), Sleep 2])
            @ [AthenaGetQueryExecution (execution_id env (started st1)),
               LogError (''Athena query failed: '' @
                 (case StateChangeReason (query_execution env (polled st1 + k)) of
                    None \<Rightarrow> ''Unknown'' | Some reason \<Rightarrow> reason))]))
     \<and> (analysis_lambda_handler cfg env event = Some (Inl e, tr) \<longrightarrow>
          filter is_put_metric tr = [])"
  using analysis_first_query_failed [OF assms, of n env cfg]
    analysis_second_query_failed [OF assms, of cfg env today_rate st1 k]
    analysis_failure_no_metric [of cfg env event e tr]
  by blast

theorem failed_query_raises_fixed_message_witness:
  "analysis_lambda_handler default_analysis_config (rates_env running_running_failed)
       friday_event =
     Some (Inl (Exception ''Athena query for todays rate failed''),
       [AthenaStartQuery (rate_query default_analysis_config ''2024'' ''02'' ''29''),
        AthenaGetQueryExecution ''q-today'', Sleep 2,
        AthenaGetQueryExecution ''q-today'', Sleep 2,
        AthenaGetQueryExecution ''q-today'',
        LogError ''Athena query failed: Query exhausted resources''])
   \<and> analysis_lambda_handler default_analysis_config (rates_env succeeded_then_cancelled)
       friday_event =
     Some (Inl (Exception ''Athena query for daily average failed''),
       [AthenaStartQuery (rate_query default_analysis_config ''2024'' ''02'' ''29''),
        AthenaGetQueryExecution ''q-today'', AthenaGetQueryResults ''q-today'',
        AthenaStartQuery (rate_query default_analysis_config ''2024'' ''02'' ''28''),
        AthenaGetQueryExecution ''q-yesterday'',
        LogError ''Athena query failed: Unknown''])
   \<and> filter is_put_metric
       [AthenaStartQuery (rate_query default_analysis_config ''2024'' ''02'' ''29''),
        AthenaGetQueryExecution ''q-today'', Sleep 2,
        AthenaGetQueryExecution ''q-today'', Sleep 2,
        AthenaGetQueryExecution ''q-today'',
        LogError ''Athena query failed: Query exhausted resources''] = []"
proof -
  note t = failed_query_raises_fixed_message
    [OF analysis_get_run_date_friday get_yesterdays_date_thursday is_weekend_thursday]
  let ?st1 = "\<lparr>started = 1, polled = 1,
      effects = [AthenaStartQuery (rate_query default_analysis_config ''2024'' ''02'' ''29''),
                 AthenaGetQueryExecution ''q-today'', AthenaGetQueryResults ''q-today'']\<rparr>"
  have p: "(\<forall>i<2. State (query_execution (rates_env running_running_failed) i)
      \<notin> {''SUCCEEDED'', ''FAILED'', ''CANCELLED''})
     \<and> State (query_execution (rates_env running_running_failed) 2)
      \<in> {''FAILED'', ''CANCELLED''}"
    by (simp add: rates_env_def running_running_failed_def)
  have a: "analysis_lambda_handler default_analysis_config (rates_env running_running_failed)
       friday_event =
     Some (Inl (Exception ''Athena query for todays rate failed''),
       [AthenaStartQuery (rate_query default_analysis_config ''2024'' ''02'' ''29''),
        AthenaGetQueryExecution ''q-today'', Sleep 2,
        AthenaGetQueryExecution ''q-today'', Sleep 2,
        AthenaGetQueryExecution ''q-today'',
        LogError ''Athena query failed: Query exhausted resources''])"
    using t [where n = 2 and env = "rates_env running_running_failed"
               and cfg = default_analysis_config, THEN conjunct1, THEN mp, OF p]
    by (simp add: rates_env_def running_running_failed_def replicate_small)
  have q: "get_todays_rate default_analysis_config (rates_env succeeded_then_cancelled)
         ''2024'' ''02'' ''29'' initial_state = Some (Inr 151.5, ?st1)
     \<and> (\<forall>i<0. State (query_execution (rates_env succeeded_then_cancelled) (polled ?st1 + i))
      \<notin> {''SUCCEEDED'', ''FAILED'', ''CANCELLED''})
     \<and> State (query_execution (rates_env succeeded_then_cancelled) (polled ?st1 + 0))
      \<in> {''FAILED'', ''CANCELLED''}"
    by (simp add: todays_rate_then_cancelled) (simp add: rates_env_def succeeded_then_cancelled_def)
  have b: "analysis_lambda_handler default_analysis_config (rates_env succeeded_then_cancelled)
       friday_event =
     Some (Inl (Exception ''Athena query for daily average failed''),
       [AthenaStartQuery (rate_query default_analysis_config ''2024'' ''02'' ''29''),
        AthenaGetQueryExecution ''q-today'', AthenaGetQueryResults ''q-today'',
        AthenaStartQuery (rate_query default_analysis_config ''2024'' ''02'' ''28''),
        AthenaGetQueryExecution ''q-yesterday'',
        LogError ''Athena query failed: Unknown''])"
    using t [where k = 0 and env = "rates_env succeeded_then_cancelled"
               and cfg = default_analysis_config and today_rate = "151.5",
             THEN conjunct2, THEN conjunct1, THEN mp, OF q]
    by (simp add: rates_env_def succeeded_then_cancelled_def)
  have c: "filter is_put_metric
       [AthenaStartQuery (rate_query default_analysis_config ''2024'' ''02'' ''29''),
        AthenaGetQueryExecution ''q-today'', Sleep 2,
        AthenaGetQueryExecution ''q-today'', Sleep 2,
        AthenaGetQueryExecution ''q-today'',
        LogError ''Athena query failed: Query exhausted resources''] = []"
    using t [where env = "rates_env running_running_failed"
               and cfg = default_analysis_config, THEN conjunct2, THEN conjunct2, THEN mp, OF a] .
  from a b c show ?thesis by blast
qed

end
